theory Spec2Isabelle
  imports Complex_Main "HOL-Library.Sublist" "HOL-Library.Log_Nat"
begin

section \<open>Attendance scan pipeline: data model\<close>

text \<open>
  Instants are epoch milliseconds, the value of \<^verbatim>\<open>Date.getTime()\<close> and
  \<^verbatim>\<open>Date.now()\<close>. The store keeps them as ISO strings and the code converts
  with \<^verbatim>\<open>new Date(s)\<close>; a column that is \<^verbatim>\<open>null\<close> is \<open>None\<close>.
  Every instant is a valid time value, at most 8.64e15 in magnitude.
\<close>

type_synonym millis = int

record attendance =
  first_check_in :: "millis option"
  first_check_out :: "millis option"
  second_check_in :: "millis option"
  second_check_out :: "millis option"
  total_hours :: rat
  is_late :: bool
  late_duration :: int

record employee =
  emp_id :: string
  qr_code :: string
  is_active :: bool
  first_name :: string
  last_name :: string

text \<open>
  A query answers \<^verbatim>\<open>{ data, error }\<close>: either the data or an error that
  carries a code.
\<close>

datatype store_error = StoreError (code: string) (message: string)

datatype 'a query_result = QueryData 'a | QueryError store_error

text \<open>What a \<^verbatim>\<open>throw\<close> carries: an \<^verbatim>\<open>Error(message)\<close> or a store error object.\<close>

datatype js_error = JsError string | ThrownStoreError store_error

fun error_message :: "js_error \<Rightarrow> string" where
  "error_message (JsError m) = m"
| "error_message (ThrownStoreError e) = message e"

record attendance_validation =
  isValid :: bool
  nextAction :: string
  errorMessage :: "string option"
  cooldownRemaining :: "millis option"
  canProceed :: bool

definition SCAN_COOLDOWN :: int where
  "SCAN_COOLDOWN = 2000"

definition CHECKOUT_TO_CHECKIN_COOLDOWN :: int where
  "CHECKOUT_TO_CHECKIN_COOLDOWN = 3 * 60 * 1000"

definition MIN_LIGHT_LEVEL :: rat where
  "MIN_LIGHT_LEVEL = 5"

subsection \<open>Doubles\<close>

text \<open>
  A JavaScript number is an IEEE double. The model keeps a double as the rational it is
  equal to: \<open>js_double x\<close> is the double nearest to \<open>x\<close>, a tie going to the even
  significand of 53 bits. Hours and their sums and products lie far inside the normal
  range, so neither overflow nor subnormal numbers are modelled. One double is kept
  otherwise: the double nearest to a number of hundredths \<open>n / 100\<close> is kept as
  \<open>n / 100\<close>, the number it prints as and the number that the column
  \<^verbatim>\<open>total_hours numeric(4,2)\<close> stores (the column also stores the sum of two such
  doubles as the sum of their hundredths).
\<close>

definition pow2 :: "int \<Rightarrow> rat" where
  "pow2 k = (if 0 \<le> k then 2 ^ nat k else 1 / 2 ^ nat (- k))"

definition round_half_even :: "rat \<Rightarrow> int" where
  "round_half_even y =
     (let f = \<lfloor>y\<rfloor>; r = y - of_int f
      in if r < 1 / 2 then f else if 1 / 2 < r then f + 1 else if even f then f else f + 1)"

text \<open>The exponent \<open>k\<close> with \<open>2 ^ k \<le> |x| < 2 ^ (k + 1)\<close>, for \<open>x\<close> other than 0.\<close>

definition binary_exponent :: "rat \<Rightarrow> int" where
  "binary_exponent x =
     (if 1 \<le> \<bar>x\<bar> then bitlen \<lfloor>\<bar>x\<bar>\<rfloor> - 1 else - bitlen (\<lceil>1 / \<bar>x\<bar>\<rceil> - 1))"

definition js_double :: "rat \<Rightarrow> rat" where
  "js_double x =
     (if x = 0 then 0
      else (let e = binary_exponent x - 52
            in of_int (round_half_even (x / pow2 e)) * pow2 e))"

subsection \<open>Numbers in template strings\<close>

text \<open>
  A template string prints an integral number in decimal, with a minus sign below zero.
\<close>

fun decimal :: "nat \<Rightarrow> string" where
  "decimal n =
     (if 10 \<le> n then decimal (n div 10) @ [''0123456789'' ! (n mod 10)]
      else [''0123456789'' ! n])"

definition number_to_string :: "int \<Rightarrow> string" where
  "number_to_string i =
     (if 0 \<le> i then decimal (nat i) else CHR ''-'' # decimal (nat (- i)))"

text \<open>
  \<^verbatim>\<open>Math.ceil(a / b)\<close> for a positive divisor, and the remainder \<^verbatim>\<open>a % b\<close>,
  which takes the sign of the dividend.
\<close>

definition math_ceil_div :: "int \<Rightarrow> int \<Rightarrow> int" where
  "math_ceil_div a b = - ((- a) div b)"

definition js_rem :: "int \<Rightarrow> int \<Rightarrow> int" where
  "js_rem a b = sgn a * (\<bar>a\<bar> mod \<bar>b\<bar>)"

section \<open>The sequencer of the first scanner\<close>

text \<open>
  \<^verbatim>\<open>validateAttendanceSequence\<close>: the argument is the answer of the store to the
  query for today's record of the employee, \<open>now\<close> is \<^verbatim>\<open>new Date()\<close>.
  An error whose code is not \<^verbatim>\<open>PGRST116\<close> is thrown and caught by the function's
  own handler.
\<close>

definition validateAttendanceSequence ::
  "attendance option query_result \<Rightarrow> millis \<Rightarrow> attendance_validation" where
  "validateAttendanceSequence answer now =
    (case answer of
       QueryError err \<Rightarrow>
         if code err \<noteq> ''PGRST116'' then
           \<lparr>isValid = False, nextAction = ''error'',
            errorMessage = Some ''Error validating attendance. Please try again.'',
            cooldownRemaining = None, canProceed = False\<rparr>
         else
           \<lparr>isValid = True, nextAction = ''first_check_in'', errorMessage = None,
            cooldownRemaining = None, canProceed = True\<rparr>
     | QueryData None \<Rightarrow>
         \<lparr>isValid = True, nextAction = ''first_check_in'', errorMessage = None,
          cooldownRemaining = None, canProceed = True\<rparr>
     | QueryData (Some a) \<Rightarrow>
         if first_check_in a \<noteq> None \<and> first_check_out a = None then
           \<lparr>isValid = True, nextAction = ''first_check_out'', errorMessage = None,
            cooldownRemaining = None, canProceed = True\<rparr>
         else if first_check_in a \<noteq> None \<and> first_check_out a \<noteq> None
                 \<and> second_check_in a = None then
           (let firstCheckOutTime = (case first_check_out a of Some t \<Rightarrow> t | None \<Rightarrow> 0);
                timeSinceCheckOut = now - firstCheckOutTime;
                remaining = CHECKOUT_TO_CHECKIN_COOLDOWN - timeSinceCheckOut
            in if timeSinceCheckOut < CHECKOUT_TO_CHECKIN_COOLDOWN then
                 (let remainingMinutes = math_ceil_div remaining (60 * 1000);
                      remainingSeconds = math_ceil_div (js_rem remaining (60 * 1000)) 1000
                  in \<lparr>isValid = False, nextAction = ''second_check_in'',
                      errorMessage = Some (''Cooldown period active. Please wait ''
                        @ number_to_string remainingMinutes @ ''m ''
                        @ number_to_string remainingSeconds
                        @ ''s before checking in again.''),
                      cooldownRemaining = Some remaining, canProceed = False\<rparr>)
               else
                 \<lparr>isValid = True, nextAction = ''second_check_in'', errorMessage = None,
                  cooldownRemaining = None, canProceed = True\<rparr>)
         else if second_check_in a \<noteq> None \<and> second_check_out a = None then
           \<lparr>isValid = True, nextAction = ''second_check_out'', errorMessage = None,
            cooldownRemaining = None, canProceed = True\<rparr>
         else if second_check_out a \<noteq> None then
           \<lparr>isValid = False, nextAction = ''complete'',
            errorMessage = Some ''All attendance records for today are complete. No further check-ins allowed.'',
            cooldownRemaining = None, canProceed = False\<rparr>
         else
           \<lparr>isValid = False, nextAction = ''unknown'',
            errorMessage = Some ''Unable to determine next action. Please contact administrator.'',
            cooldownRemaining = None, canProceed = False\<rparr>)"


subsection \<open>The store, the environment of one scan and the component state\<close>

text \<open>
  The table \<^verbatim>\<open>attendance_records\<close> has at most one row per employee and date
  (\<^verbatim>\<open>UNIQUE(employee_id, date)\<close>), so it is a map on that key.
\<close>

record store =
  employees :: "employee list"
  attendance_records :: "string \<times> string \<rightharpoonup> attendance"

datatype effect =
    Vibrate "nat list"
  | SelectEmployee string
  | SelectAttendance string string
  | SelectSetting string
  | InsertAttendance string string
  | UpdateAttendance string string
  | UpsertAttendance string string
  | AnnounceError string
  | AnnounceAttendance string string
  | Speak string
  | NotifyAttendance string string
  | PushAttendanceEvent string string "millis option"
  | SwalFire string string
  | TurnFlashOn

datatype scanner_status = initializing | ready | scanning_status | processing

datatype feedback_type = success | error | warning

text \<open>
  What one scan reads from outside: the three clock readings (\<^verbatim>\<open>Date.now()\<close> on
  entry, \<^verbatim>\<open>new Date()\<close> in the validation and in the processing), the date string
  of today (the readings of one scan fall on one day), whether the device vibrates, the
  failures of the store calls, and the instant of today's \<^verbatim>\<open>work_start_time\<close>
  (\<open>None\<close> when the setting is missing).

  The handler \<^verbatim>\<open>handleScanResult\<close> is a closure of one render of the component: the
  \<^verbatim>\<open>scanCache\<close> and \<^verbatim>\<open>isOnline\<close> it reads are the constants of that render,
  not the state of the component at the time of the scan. They are
  \<open>render_scanCache\<close> and \<open>render_isOnline\<close>; what \<^verbatim>\<open>setScanCache\<close> and the
  online and offline events write is the state, \<open>scanCache\<close> and \<open>isOnline\<close> of the
  scanner below.
\<close>

record env =
  render_scanCache :: "string \<rightharpoonup> millis"
  render_isOnline :: bool
  t_scan :: millis
  t_validate :: millis
  t_process :: millis
  today :: string
  hasVibrate :: bool
  employeeQueryError :: "store_error option"
  validateQueryError :: "store_error option"
  processQueryError :: "store_error option"
  writeError :: "store_error option"
  workStart :: "millis option"

record lighting_guidance =
  level :: rat
  guidance_text :: string
  needsFlash :: bool
  overall :: string

record scanner =
  isMounted :: bool
  hasVideo :: bool
  hasScanner :: bool
  scanning :: bool
  scanCache :: "string \<rightharpoonup> millis"
  isOnline :: bool
  flashEnabled :: bool
  errorText :: string
  scannerStatus :: scanner_status
  scanCount :: nat
  lightLevel :: rat
  guidance :: "lighting_guidance option"
  db :: store
  effects :: "effect list"

definition emit :: "effect list \<Rightarrow> scanner \<Rightarrow> scanner" where
  "emit es s = s\<lparr>effects := effects s @ es\<rparr>"

definition employeeName :: "employee \<Rightarrow> string" where
  "employeeName emp = first_name emp @ '' '' @ last_name emp"

text \<open>\<^verbatim>\<open>.single()\<close>: exactly one row, otherwise the error \<^verbatim>\<open>PGRST116\<close>.\<close>

definition single :: "'a list \<Rightarrow> 'a query_result" where
  "single rows = (case rows of [r] \<Rightarrow> QueryData r
                  | _ \<Rightarrow> QueryError (StoreError ''PGRST116'' ''JSON object requested, multiple (or no) rows returned''))"

definition selectAttendance ::
  "store_error option \<Rightarrow> store \<Rightarrow> string \<Rightarrow> string \<Rightarrow> attendance option query_result" where
  "selectAttendance failure d employee_id date =
     (case failure of Some err \<Rightarrow> QueryError err
      | None \<Rightarrow> QueryData (attendance_records d (employee_id, date)))"

subsection \<open>Feedback and messages\<close>

definition provideFeedback :: "bool \<Rightarrow> feedback_type \<Rightarrow> scanner \<Rightarrow> scanner" where
  "provideFeedback vibrate type s =
     (if vibrate then
        (if type = success then emit [Vibrate [100, 50, 100]] s
         else emit [Vibrate [200, 100, 200]] s)
      else s)"

definition showTimingError :: "env \<Rightarrow> employee \<Rightarrow> attendance_validation \<Rightarrow> scanner \<Rightarrow> scanner" where
  "showTimingError e emp validation s =
     (let s1 = emit [AnnounceError (case errorMessage validation of Some m \<Rightarrow> m
                                     | None \<Rightarrow> ''Timing violation''),
                     PushAttendanceEvent (employeeName emp) (nextAction validation)
                       (cooldownRemaining validation),
                     SwalFire ''warning'' ''Check-in Timing Violation''] s
      in if hasVibrate e then emit [Vibrate [200, 100, 200, 100, 200]] s1 else s1)"

definition formatActionText :: "string \<Rightarrow> string" where
  "formatActionText action =
     (if action = ''first_check_in'' then ''First Check In''
      else if action = ''first_check_out'' then ''First Check Out''
      else if action = ''second_check_in'' then ''Second Check In''
      else if action = ''second_check_out'' then ''Second Check Out''
      else action)"

definition showSuccessFeedback :: "employee \<Rightarrow> string \<Rightarrow> scanner \<Rightarrow> scanner" where
  "showSuccessFeedback emp action s =
     (if \<not> isMounted s then s
      else emit [AnnounceAttendance (employeeName emp) action,
                 NotifyAttendance (employeeName emp) (formatActionText action),
                 PushAttendanceEvent (employeeName emp) action None,
                 SwalFire ''success'' ''Attendance Recorded''] s)"

definition handleProcessingError :: "js_error \<Rightarrow> scanner \<Rightarrow> scanner" where
  "handleProcessingError err s =
     (if \<not> isMounted s then s
      else (let errorMessage = (if error_message err = [] then ''Failed to process attendance''
                                else error_message err)
            in emit [AnnounceError errorMessage] (s\<lparr>errorText := errorMessage\<rparr>)))"

subsection \<open>Lateness and hours\<close>

definition checkIfLate :: "millis option \<Rightarrow> millis \<Rightarrow> bool \<times> int" where
  "checkIfLate setting checkIn =
     (case setting of None \<Rightarrow> (False, 0)
      | Some start \<Rightarrow>
          if checkIn > start then (True, (checkIn - start) div (1000 * 60)) else (False, 0))"

text \<open>\<^verbatim>\<open>new Date(null).getTime()\<close> is 0.\<close>

definition getTime :: "millis option \<Rightarrow> millis" where
  "getTime t = (case t of Some m \<Rightarrow> m | None \<Rightarrow> 0)"

text \<open>\<^verbatim>\<open>Math.round\<close> rounds a half towards plus infinity.\<close>

definition math_round :: "rat \<Rightarrow> int" where
  "math_round x = \<lfloor>x + 1 / 2\<rfloor>"

definition calculateTotalHours :: "attendance \<Rightarrow> millis \<Rightarrow> rat" where
  "calculateTotalHours a secondCheckOut =
     (let firstIn = getTime (first_check_in a);
          firstOut = getTime (first_check_out a);
          secondIn = getTime (second_check_in a);
          secondOut = secondCheckOut;
          morning = js_double (js_double (of_int (firstOut - firstIn)) / (1000 * 60 * 60));
          afternoon = js_double (js_double (of_int (secondOut - secondIn)) / (1000 * 60 * 60))
      in of_int (math_round (js_double (js_double (morning + afternoon) * 100))) / 100)"

subsection \<open>Recording the scan\<close>

definition insertAttendance ::
  "store_error option \<Rightarrow> string \<times> string \<Rightarrow> attendance \<Rightarrow> store \<Rightarrow> store_error + store" where
  "insertAttendance failure key row d =
     (case failure of Some err \<Rightarrow> Inl err
      | None \<Rightarrow>
          if attendance_records d key \<noteq> None
          then Inl (StoreError ''23505'' ''duplicate key value violates unique constraint'')
          else Inr (d\<lparr>attendance_records := (attendance_records d)(key \<mapsto> row)\<rparr>))"

text \<open>
  \<^verbatim>\<open>updateData\<close>: the columns an update writes; a column left out keeps its value.
\<close>

record update_data =
  set_first_check_in :: "millis option"
  set_first_check_out :: "millis option"
  set_second_check_in :: "millis option"
  set_second_check_out :: "millis option"
  set_total_hours :: "rat option"
  set_is_late :: "bool option"

definition no_columns :: update_data where
  "no_columns = \<lparr>set_first_check_in = None, set_first_check_out = None,
                  set_second_check_in = None, set_second_check_out = None,
                  set_total_hours = None, set_is_late = None\<rparr>"

definition apply_update :: "update_data \<Rightarrow> attendance \<Rightarrow> attendance" where
  "apply_update u r =
     r\<lparr>first_check_in := (case set_first_check_in u of Some t \<Rightarrow> Some t | None \<Rightarrow> first_check_in r),
       first_check_out := (case set_first_check_out u of Some t \<Rightarrow> Some t | None \<Rightarrow> first_check_out r),
       second_check_in := (case set_second_check_in u of Some t \<Rightarrow> Some t | None \<Rightarrow> second_check_in r),
       second_check_out := (case set_second_check_out u of Some t \<Rightarrow> Some t | None \<Rightarrow> second_check_out r),
       total_hours := (case set_total_hours u of Some h \<Rightarrow> h | None \<Rightarrow> total_hours r),
       is_late := (case set_is_late u of Some b \<Rightarrow> b | None \<Rightarrow> is_late r)\<rparr>"

definition updateAttendance ::
  "store_error option \<Rightarrow> string \<times> string \<Rightarrow> update_data \<Rightarrow> store \<Rightarrow> store_error + store" where
  "updateAttendance failure key updateData d =
     (case failure of Some err \<Rightarrow> Inl err
      | None \<Rightarrow>
          (case attendance_records d key of None \<Rightarrow> Inr d
           | Some row \<Rightarrow>
               Inr (d\<lparr>attendance_records :=
                        (attendance_records d)(key \<mapsto> apply_update updateData row)\<rparr>)))"

text \<open>
  \<^verbatim>\<open>processAttendance(employee, action)\<close> reads the record again, then inserts or
  updates. The result is the state reached and the error thrown, if any.
\<close>

definition processAttendance ::
  "env \<Rightarrow> employee \<Rightarrow> string \<Rightarrow> scanner \<Rightarrow> scanner \<times> js_error option" where
  "processAttendance e emp action s =
    (let key = (emp_id emp, today e);
         now = t_process e;
         s1 = emit [SelectAttendance (emp_id emp) (today e)] s;
         answer = selectAttendance (processQueryError e) (db s1) (emp_id emp) (today e)
     in case (case answer of
                QueryError err \<Rightarrow> if code err \<noteq> ''PGRST116'' then Inl err else Inr None
              | QueryData a \<Rightarrow> Inr a) of
          Inl fetchError \<Rightarrow> (s1, Some (ThrownStoreError fetchError))
        | Inr attendance \<Rightarrow>
            if attendance = None \<and> action = ''first_check_in'' then
              (let s2 = emit [SelectSetting ''work_start_time''] s1;
                   (isLate, lateDuration) = checkIfLate (workStart e) now;
                   s3 = emit [InsertAttendance (emp_id emp) (today e)] s2
               in case insertAttendance (writeError e) key
                         \<lparr>first_check_in = Some now, first_check_out = None,
                          second_check_in = None, second_check_out = None,
                          total_hours = 0, is_late = isLate, late_duration = lateDuration\<rparr>
                         (db s3) of
                    Inl insertError \<Rightarrow> (s3, Some (ThrownStoreError insertError))
                  | Inr d \<Rightarrow> (showSuccessFeedback emp action (s3\<lparr>db := d\<rparr>), None))
            else
              (case attendance of
                 Some a \<Rightarrow>
                   (case (if action = ''first_check_out''
                            then Some (no_columns\<lparr>set_first_check_out := Some now\<rparr>)
                          else if action = ''second_check_in''
                            then Some (no_columns\<lparr>set_second_check_in := Some now\<rparr>)
                          else if action = ''second_check_out''
                            then Some (no_columns\<lparr>set_second_check_out := Some now,
                                         set_total_hours := Some (calculateTotalHours a now)\<rparr>)
                          else None) of
                      None \<Rightarrow> (s1, Some (JsError (''Invalid action: '' @ action)))
                    | Some updateData \<Rightarrow>
                        (let s2 = emit [UpdateAttendance (emp_id emp) (today e)] s1
                         in case updateAttendance (writeError e) key updateData (db s2) of
                              Inl updateError \<Rightarrow> (s2, Some (ThrownStoreError updateError))
                            | Inr d \<Rightarrow> (showSuccessFeedback emp action (s2\<lparr>db := d\<rparr>), None)))
               | None \<Rightarrow>
                   (s1, Some (JsError (''Invalid state: No attendance record for action ''
                                        @ action)))))"

text \<open>
  The body of the \<^verbatim>\<open>try\<close> block of \<^verbatim>\<open>handleScanResult\<close> after the scan
  cache has been written.
\<close>

definition handleScanResult_try ::
  "env \<Rightarrow> string \<Rightarrow> scanner \<Rightarrow> scanner \<times> js_error option" where
  "handleScanResult_try e qrCode s =
    (let s1 = provideFeedback (hasVibrate e) success s
     in if \<not> render_isOnline e then (s1, Some (JsError ''No internet connection''))
        else
          (let s2 = emit [SelectEmployee qrCode] s1;
               found = (case employeeQueryError e of
                          Some err \<Rightarrow> QueryError err
                        | None \<Rightarrow> single (filter (\<lambda>x. qr_code x = qrCode \<and> is_active x)
                                            (employees (db s2))))
           in case found of
                QueryError employeeError \<Rightarrow>
                  (s2, Some (JsError ''Invalid QR code or employee not found''))
              | QueryData emp \<Rightarrow>
                  (let s3 = emit [SelectAttendance (emp_id emp) (today e)] s2;
                       validation = validateAttendanceSequence
                         (selectAttendance (validateQueryError e) (db s3) (emp_id emp) (today e))
                         (t_validate e)
                   in if \<not> canProceed validation
                      then (showTimingError e emp validation s3, None)
                      else (case processAttendance e emp (nextAction validation) s3 of
                              (s4, Some err) \<Rightarrow> (s4, Some err)
                            | (s4, None) \<Rightarrow>
                                ((if isMounted s4 then s4\<lparr>scanCount := scanCount s4 + 1\<rparr>
                                  else s4), None)))))"

definition recentlyScanned :: "(string \<rightharpoonup> millis) \<Rightarrow> string \<Rightarrow> millis \<Rightarrow> bool" where
  "recentlyScanned cache qrCode now =
     (case cache qrCode of None \<Rightarrow> False
      | Some seen \<Rightarrow> seen \<noteq> 0 \<and> now - seen < SCAN_COOLDOWN)"

definition handleScanResult :: "env \<Rightarrow> string \<Rightarrow> scanner \<Rightarrow> scanner" where
  "handleScanResult e qrCode s =
    (if \<not> isMounted s then s
     else
       (let now = t_scan e;
            s1 = s\<lparr>scannerStatus := processing\<rparr>
        in if recentlyScanned (render_scanCache e) qrCode now
           then s1\<lparr>scannerStatus := ready\<rparr>
           else
             (case handleScanResult_try e qrCode
                     (s1\<lparr>scanCache := (scanCache s1)(qrCode \<mapsto> now)\<rparr>) of
                (s2, None) \<Rightarrow> s2\<lparr>scannerStatus := ready\<rparr>
              | (s2, Some err) \<Rightarrow>
                  (handleProcessingError err (provideFeedback (hasVibrate e) error s2))
                    \<lparr>scannerStatus := ready\<rparr>)))"

text \<open>
  The handler that runs. \<^verbatim>\<open>QrScanner\<close> is constructed once, by the
  \<^verbatim>\<open>initializeScanner\<close> that the mount effect calls, and keeps the callback it is
  given there: the \<^verbatim>\<open>handleScanResult\<close> of the first render, whose
  \<^verbatim>\<open>scanCache\<close> is the empty object of \<^verbatim>\<open>useState({})\<close> and whose
  \<^verbatim>\<open>isOnline\<close> is \<^verbatim>\<open>navigator.onLine\<close> at that time. A retry of the
  initialisation runs while the error is shown in place of the video element, and throws
  before it constructs another scanner.
\<close>

definition first_render :: "bool \<Rightarrow> env \<Rightarrow> env" where
  "first_render onLine e = e\<lparr>render_scanCache := Map.empty, render_isOnline := onLine\<rparr>"

definition onDecode :: "bool \<Rightarrow> env \<Rightarrow> string \<Rightarrow> scanner \<Rightarrow> scanner" where
  "onDecode onLine e data s =
     (if isMounted s then handleScanResult (first_render onLine e) data s else s)"

subsection \<open>The lighting adviser of the first scanner\<close>

text \<open>
  One run of the interval callback of \<^verbatim>\<open>startLightLevelMonitoring\<close>. A sample gives
  the brightness that \<^verbatim>\<open>detectLightLevel\<close> measured and whether
  \<^verbatim>\<open>turnFlashOn\<close> throws on this device. The callback is a closure of the render
  whose \<^verbatim>\<open>startLightLevelMonitoring\<close> started the timer: the \<^verbatim>\<open>scanning\<close> and
  \<^verbatim>\<open>flashEnabled\<close> it reads are the constants of that render, \<open>seen_scanning\<close> and
  \<open>seen_flashEnabled\<close>; what \<^verbatim>\<open>setFlashEnabled\<close> writes is the state.
\<close>

record light_sample =
  measured :: rat
  flashFails :: bool

record timer_closure =
  seen_scanning :: bool
  seen_flashEnabled :: bool

definition getComprehensiveGuidance :: "rat \<Rightarrow> lighting_guidance" where
  "getComprehensiveGuidance l =
     \<lparr>level = l,
      guidance_text = (if l < 30 then ''Low light - consider enabling flash''
                       else ''Good lighting conditions''),
      needsFlash = (l < 30),
      overall = (if l < 30 then ''Adjust lighting for better scanning''
                 else ''Optimal conditions for scanning'')\<rparr>"

definition enableFlash :: "bool \<Rightarrow> bool \<Rightarrow> scanner \<Rightarrow> scanner" where
  "enableFlash vibrate fails s =
     (if \<not> isMounted s then s
      else if hasScanner s then
        (let s1 = emit [TurnFlashOn] s
         in if fails then s1
            else if isMounted s1 then provideFeedback vibrate success (s1\<lparr>flashEnabled := True\<rparr>)
            else s1)
      else s)"

definition lightTick :: "timer_closure \<Rightarrow> bool \<Rightarrow> light_sample \<Rightarrow> scanner \<Rightarrow> scanner" where
  "lightTick c vibrate smp s =
     (if \<not> isMounted s \<or> \<not> hasVideo s \<or> \<not> seen_scanning c then s
      else
        (let l = measured smp
         in if \<not> isMounted s then s
            else
              (let s1 = s\<lparr>lightLevel := l\<rparr>;
                   s2 = (if l < MIN_LIGHT_LEVEL \<and> \<not> seen_flashEnabled c
                         then enableFlash vibrate (flashFails smp) s1 else s1)
               in if isMounted s2 then s2\<lparr>guidance := Some (getComprehensiveGuidance l)\<rparr>
                  else s2)))"

text \<open>The timer fires every 2 seconds: one sample after the other, in the same closure.\<close>

fun monitorLight :: "timer_closure \<Rightarrow> bool \<Rightarrow> light_sample list \<Rightarrow> scanner \<Rightarrow> scanner" where
  "monitorLight c vibrate [] s = s"
| "monitorLight c vibrate (smp # smps) s =
     monitorLight c vibrate smps (lightTick c vibrate smp s)"

text \<open>
  The timer that runs. \<^verbatim>\<open>startLightLevelMonitoring\<close> is called only by
  \<^verbatim>\<open>initializeScanner\<close>, from the mount effect: the closure is that of the first
  render, where \<^verbatim>\<open>useState(false)\<close> gives both \<^verbatim>\<open>scanning\<close> and
  \<^verbatim>\<open>flashEnabled\<close> as false.
\<close>

definition first_render_timer :: timer_closure where
  "first_render_timer = \<lparr>seen_scanning = False, seen_flashEnabled = False\<rparr>"

definition flashCalls :: "scanner \<Rightarrow> nat" where
  "flashCalls s = length (filter (\<lambda>x. x = TurnFlashOn) (effects s))"

section \<open>The second scanner\<close>

text \<open>
  The second implementation of the scanner keeps its scan cache in a ref and has one
  function, \<^verbatim>\<open>processAttendance(employee)\<close>, that both decides and writes.
  \<open>formattedTime\<close> is the time of the scan as \<^verbatim>\<open>format(..., 'hh:mm a')\<close> prints it
  in the time zone of the device.
\<close>

definition COOLDOWN_PERIODS_SCAN :: int where
  "COOLDOWN_PERIODS_SCAN = 2000"

record env2 =
  t_seen :: millis
  t_recorded :: millis
  t_now :: millis
  today2 :: string
  employeeQueryError2 :: "store_error option"
  fetchError2 :: "store_error option"
  upsertError2 :: "store_error option"
  scheduleTime :: millis
  formattedTime :: string

record scanner2 =
  isMounted2 :: bool
  lastScan :: "string \<rightharpoonup> millis"
  status2 :: scanner_status
  db2 :: store
  effects2 :: "effect list"

definition emit2 :: "effect list \<Rightarrow> scanner2 \<Rightarrow> scanner2" where
  "emit2 es s = s\<lparr>effects2 := effects2 s @ es\<rparr>"

definition updateScannerState :: "scanner_status \<Rightarrow> scanner2 \<Rightarrow> scanner2" where
  "updateScannerState st s = (if isMounted2 s then s\<lparr>status2 := st\<rparr> else s)"

text \<open>
  \<^verbatim>\<open>lastScanRef.current\<close> is a plain object; \<open>lastScan\<close> holds the numbers it owns.
  Under a key it does not own, and under the key \<^verbatim>\<open>__proto__\<close>, the object reads as
  undefined or as an object or function of its prototype, never as a number: the
  difference with \<^verbatim>\<open>Date.now()\<close> is then not a number and is below nothing. An
  assignment of a number to the key \<^verbatim>\<open>__proto__\<close> stores nothing.
\<close>

definition object_number :: "(string \<rightharpoonup> millis) \<Rightarrow> string \<Rightarrow> millis option" where
  "object_number obj key = (if key = ''__proto__'' then None else obj key)"

definition object_assign ::
  "(string \<rightharpoonup> millis) \<Rightarrow> string \<Rightarrow> millis \<Rightarrow> (string \<rightharpoonup> millis)" where
  "object_assign obj key v = (if key = ''__proto__'' then obj else obj(key \<mapsto> v))"

definition isRecentlySeen :: "(string \<rightharpoonup> millis) \<Rightarrow> string \<Rightarrow> millis \<Rightarrow> bool" where
  "isRecentlySeen cache qrCode now =
     (case object_number cache qrCode of None \<Rightarrow> False
      | Some seen \<Rightarrow> seen \<noteq> 0 \<and> now - seen < COOLDOWN_PERIODS_SCAN)"

fun js_includes :: "string \<Rightarrow> string \<Rightarrow> bool" where
  "js_includes [] p = (p = [])"
| "js_includes (c # cs) p = (take (length p) (c # cs) = p \<or> js_includes cs p)"

definition handleError :: "js_error \<Rightarrow> scanner2 \<Rightarrow> scanner2" where
  "handleError err s =
     (if js_includes (error_message err) ''3 minutes between first check-in and first check-out''
      then emit2 [SwalFire ''warning'' ''Wait Required'',
                  AnnounceError ''Please wait at least 3 minutes between your first check-in and first check-out.''] s
      else (let errorMessage = (if error_message err = [] then ''Failed to process attendance''
                                else error_message err)
            in emit2 [SwalFire ''error'' ''Error'', AnnounceError errorMessage] s))"

definition validateQRCode :: "env2 \<Rightarrow> string \<Rightarrow> scanner2 \<Rightarrow> scanner2 \<times> (js_error + employee)" where
  "validateQRCode e qrData s =
     (let s1 = emit2 [SelectEmployee qrData] s
      in case (case employeeQueryError2 e of
                 Some err \<Rightarrow> QueryError err
               | None \<Rightarrow> single (filter (\<lambda>x. qr_code x = qrData) (employees (db2 s1)))) of
           QueryError err \<Rightarrow> (s1, Inl (JsError ''Failed to validate QR code''))
         | QueryData emp \<Rightarrow> (s1, Inr emp))"

definition isLate :: "millis \<Rightarrow> millis \<Rightarrow> bool" where
  "isLate schedule checkInTime = (checkInTime > schedule)"

text \<open>
  \<^verbatim>\<open>toFixed(2)\<close> rounds the double it is given, a half going away from zero;
  \<^verbatim>\<open>Number\<close> reads the two decimals back.
\<close>

definition toFixed2 :: "rat \<Rightarrow> rat" where
  "toFixed2 x = sgn x * (of_int \<lfloor>\<bar>x\<bar> * 100 + 1 / 2\<rfloor> / 100)"

definition calculateHours :: "millis \<Rightarrow> millis \<Rightarrow> rat" where
  "calculateHours start end =
     toFixed2 (js_double (js_double (of_int (end - start)) / (1000 * 60 * 60)))"

definition determineActionType :: "attendance option \<Rightarrow> update_data \<Rightarrow> string" where
  "determineActionType existingRecord updateData =
     (if existingRecord = None then ''check-in''
      else if set_first_check_out updateData \<noteq> None then ''check-out''
      else if set_second_check_in updateData \<noteq> None then ''check-in''
      else if set_second_check_out updateData \<noteq> None then ''check-out''
      else ''check-in'')"

definition showSuccessFeedback2 :: "employee \<Rightarrow> string \<Rightarrow> string \<Rightarrow> scanner2 \<Rightarrow> scanner2" where
  "showSuccessFeedback2 emp action time s =
     (let actionText = (if action = ''check-in'' then ''check-in'' else ''check-out'');
          m = first_name emp @ '' '' @ last_name emp @ '' '' @ actionText
              @ '' successful at '' @ time
      in emit2 [Speak m, SwalFire ''success'' ''Success!''] s)"

text \<open>
  The columns \<^verbatim>\<open>processAttendance(employee)\<close> decides to write for the record it
  read, or the error it throws.
\<close>

definition decideUpdate :: "env2 \<Rightarrow> attendance option \<Rightarrow> js_error + update_data" where
  "decideUpdate e existingRecord =
     (let now = t_now e
      in case existingRecord of
           None \<Rightarrow>
             Inr (no_columns\<lparr>set_first_check_in := Some now,
                    set_is_late := Some (isLate (scheduleTime e) now),
                    set_total_hours := Some 0\<rparr>)
         | Some r \<Rightarrow>
             if first_check_out r = None then
               (let timeDifference = now - getTime (first_check_in r)
                in if timeDifference < 3 * 60 * 1000
                   then Inl (JsError ''Please wait at least 3 minutes between first check-in and first check-out'')
                   else Inr (no_columns\<lparr>set_first_check_out := Some now,
                               set_total_hours :=
                                 Some (calculateHours (getTime (first_check_in r)) now)\<rparr>))
             else if second_check_in r = None then
               Inr (no_columns\<lparr>set_second_check_in := Some now\<rparr>)
             else if second_check_out r = None then
               (let firstSession = calculateHours (getTime (first_check_in r))
                                                  (getTime (first_check_out r));
                    secondSession = calculateHours (getTime (second_check_in r)) now
                in Inr (no_columns\<lparr>set_second_check_out := Some now,
                          set_total_hours := Some (firstSession + secondSession)\<rparr>))
             else Inl (JsError ''All check-ins and check-outs are completed for today''))"

text \<open>A row that is inserted takes the defaults of the table for the other columns.\<close>

definition default_row :: attendance where
  "default_row = \<lparr>first_check_in = None, first_check_out = None, second_check_in = None,
                   second_check_out = None, total_hours = 0, is_late = False,
                   late_duration = 0\<rparr>"

definition upsertAttendance ::
  "store_error option \<Rightarrow> string \<times> string \<Rightarrow> attendance option \<Rightarrow> update_data \<Rightarrow> store
     \<Rightarrow> store_error + store" where
  "upsertAttendance failure key existingRecord updateData d =
     (case failure of Some err \<Rightarrow> Inl err
      | None \<Rightarrow>
          (case existingRecord of
             None \<Rightarrow>
               if attendance_records d key \<noteq> None
               then Inl (StoreError ''23505'' ''duplicate key value violates unique constraint'')
               else Inr (d\<lparr>attendance_records :=
                             (attendance_records d)(key \<mapsto> apply_update updateData default_row)\<rparr>)
           | Some r \<Rightarrow>
               Inr (d\<lparr>attendance_records :=
                        (attendance_records d)(key \<mapsto> apply_update updateData r)\<rparr>)))"

definition processAttendance2_try ::
  "env2 \<Rightarrow> employee \<Rightarrow> scanner2 \<Rightarrow> scanner2 \<times> js_error option" where
  "processAttendance2_try e emp s =
    (let key = (emp_id emp, today2 e);
         s1 = emit2 [SelectAttendance (emp_id emp) (today2 e)] s;
         answer = (case fetchError2 e of
                     Some err \<Rightarrow> QueryError err
                   | None \<Rightarrow> single (case attendance_records (db2 s1) key of
                                       None \<Rightarrow> [] | Some r \<Rightarrow> [r]))
     in case (case answer of
                QueryError err \<Rightarrow>
                  if code err \<noteq> ''PGRST116''
                  then Inl (JsError ''Failed to check existing attendance'') else Inr None
              | QueryData r \<Rightarrow> Inr (Some r)) of
          Inl thrown \<Rightarrow> (s1, Some thrown)
        | Inr existingRecord \<Rightarrow>
            (let s2 = (if existingRecord = None then emit2 [SelectSetting ''work_start_time''] s1
                       else s1)
             in case decideUpdate e existingRecord of
                  Inl thrown \<Rightarrow> (s2, Some thrown)
                | Inr updateData \<Rightarrow>
                    (let s3 = emit2 [UpsertAttendance (emp_id emp) (today2 e)] s2
                     in case upsertAttendance (upsertError2 e) key existingRecord updateData
                               (db2 s3) of
                          Inl updateError \<Rightarrow> (s3, Some (JsError ''Failed to update attendance''))
                        | Inr d \<Rightarrow>
                            (showSuccessFeedback2 emp
                               (determineActionType existingRecord updateData)
                               (formattedTime e) (s3\<lparr>db2 := d\<rparr>), None))))"

definition processAttendance2 ::
  "env2 \<Rightarrow> employee \<Rightarrow> scanner2 \<Rightarrow> scanner2 \<times> js_error option" where
  "processAttendance2 e emp s =
     (case processAttendance2_try e emp s of
        (s1, Some err) \<Rightarrow> (handleError err s1, Some err)
      | (s1, None) \<Rightarrow> (s1, None))"

definition handleScan :: "env2 \<Rightarrow> string \<Rightarrow> scanner2 \<Rightarrow> scanner2" where
  "handleScan e qrData s =
     (if isRecentlySeen (lastScan s) qrData (t_seen e) then s
      else
        (let s1 = s\<lparr>lastScan := object_assign (lastScan s) qrData (t_recorded e)\<rparr>;
             s2 = updateScannerState processing s1
         in case validateQRCode e qrData s2 of
              (s3, Inl err) \<Rightarrow> updateScannerState ready (handleError err s3)
            | (s3, Inr emp) \<Rightarrow>
                (case processAttendance2 e emp s3 of
                   (s4, Some err) \<Rightarrow> updateScannerState ready (handleError err s4)
                 | (s4, None) \<Rightarrow> updateScannerState ready s4)))"

section \<open>The feedback system\<close>

text \<open>
  \<^verbatim>\<open>FeedbackSystem\<close>: one timestamp and one cooldown for every kind of feedback.
  \<open>audioContext\<close> says whether the audio context could be created.
\<close>

record feedback_system =
  audioContext :: bool
  lastFeedbackTime :: millis
  feedbackCooldown :: millis

datatype channel_effect = TeakSound | HapticVibrate "nat list" | VisualConfirmation

definition new_FeedbackSystem :: "bool \<Rightarrow> feedback_system" where
  "new_FeedbackSystem audio =
     \<lparr>audioContext = audio, lastFeedbackTime = 0, feedbackCooldown = 2000\<rparr>"

definition playTeakSound :: "feedback_system \<Rightarrow> channel_effect list" where
  "playTeakSound fs = (if \<not> audioContext fs then [] else [TeakSound])"

definition triggerHapticFeedback :: "bool \<Rightarrow> channel_effect list" where
  "triggerHapticFeedback vibrate = (if vibrate then [HapticVibrate [100, 50, 100]] else [])"

definition FeedbackSystem_provideFeedback ::
  "bool \<Rightarrow> millis \<Rightarrow> feedback_type \<Rightarrow> bool \<Rightarrow> feedback_system
     \<Rightarrow> feedback_system \<times> channel_effect list" where
  "FeedbackSystem_provideFeedback vibrate now type element fs =
     (if now - lastFeedbackTime fs < feedbackCooldown fs then (fs, [])
      else
        (let fs1 = fs\<lparr>lastFeedbackTime := now\<rparr>
         in case type of
              success \<Rightarrow>
                (fs1, playTeakSound fs1 @ triggerHapticFeedback vibrate
                        @ (if element then [VisualConfirmation] else []))
            | error \<Rightarrow>
                (fs1, triggerHapticFeedback vibrate
                        @ (if vibrate then [HapticVibrate [200, 100, 200, 100, 200]] else []))
            | warning \<Rightarrow> (fs1, if vibrate then [HapticVibrate [150]] else [])))"

definition isDuplicateFeedback :: "millis \<Rightarrow> feedback_system \<Rightarrow> bool" where
  "isDuplicateFeedback now fs = (now - lastFeedbackTime fs < feedbackCooldown fs)"

definition setCooldownPeriod :: "millis \<Rightarrow> feedback_system \<Rightarrow> feedback_system" where
  "setCooldownPeriod milliseconds fs = fs\<lparr>feedbackCooldown := milliseconds\<rparr>"


section \<open>Records the scanners produce, and examples\<close>

text \<open>
  Both scanners create a record with its first check-in, set a timestamp only on a record
  where the timestamp before it is set, and never clear one
  (\<open>handleScanResult_keeps_order\<close> and \<open>handleScan_keeps_order\<close> below): in every
  record they leave behind, the timestamps present are first in, then first out, then
  second in, then second out, without a gap.
\<close>

definition timestamps_in_order :: "attendance \<Rightarrow> bool" where
  "timestamps_in_order a \<longleftrightarrow>
     first_check_in a \<noteq> None
   \<and> (second_check_in a \<noteq> None \<longrightarrow> first_check_out a \<noteq> None)
   \<and> (second_check_out a \<noteq> None \<longrightarrow> second_check_in a \<noteq> None)"

definition store_in_order :: "store \<Rightarrow> bool" where
  "store_in_order d \<longleftrightarrow> (\<forall>k r. attendance_records d k = Some r \<longrightarrow> timestamps_in_order r)"

definition example_employee :: employee where
  "example_employee = \<lparr>emp_id = ''e1'', qr_code = ''QR-1'', is_active = True,
                        first_name = ''Ada'', last_name = ''Perera''\<rparr>"

definition example_row ::
  "millis option \<Rightarrow> millis option \<Rightarrow> millis option \<Rightarrow> millis option \<Rightarrow> attendance" where
  "example_row fi fo si so =
     \<lparr>first_check_in = fi, first_check_out = fo, second_check_in = si, second_check_out = so,
      total_hours = 0, is_late = False, late_duration = 0\<rparr>"

definition example_store :: "attendance option \<Rightarrow> store" where
  "example_store row =
     \<lparr>employees = [example_employee],
      attendance_records = (\<lambda>k. if k = (''e1'', ''2025-06-26'') then row else None)\<rparr>"

definition example_env :: "millis \<Rightarrow> env" where
  "example_env t =
     \<lparr>render_scanCache = Map.empty, render_isOnline = True,
      t_scan = t, t_validate = t + 1, t_process = t + 2, today = ''2025-06-26'',
      hasVibrate = True, employeeQueryError = None, validateQueryError = None,
      processQueryError = None, writeError = None, workStart = None\<rparr>"

definition example_scanner :: "attendance option \<Rightarrow> scanner" where
  "example_scanner row =
     \<lparr>isMounted = True, hasVideo = True, hasScanner = True, scanning = True,
      scanCache = Map.empty, isOnline = True, flashEnabled = False, errorText = [],
      scannerStatus = ready, scanCount = 0, lightLevel = 0, guidance = None,
      db = example_store row, effects = []\<rparr>"

definition example_env2 :: "millis \<Rightarrow> env2" where
  "example_env2 t =
     \<lparr>t_seen = t, t_recorded = t, t_now = t, today2 = ''2025-06-26'',
      employeeQueryError2 = None, fetchError2 = None, upsertError2 = None, scheduleTime = 0,
      formattedTime = ''09:05 AM''\<rparr>"

definition example_scanner2 :: "attendance option \<Rightarrow> scanner2" where
  "example_scanner2 row =
     \<lparr>isMounted2 = True, lastScan = Map.empty, status2 = ready,
      db2 = example_store row, effects2 = []\<rparr>"

definition example_samples :: "light_sample list" where
  "example_samples = [\<lparr>measured = 3, flashFails = False\<rparr>, \<lparr>measured = 2, flashFails = False\<rparr>,
                      \<lparr>measured = 4, flashFails = False\<rparr>]"

definition example_timer :: timer_closure where
  "example_timer = \<lparr>seen_scanning = True, seen_flashEnabled = False\<rparr>"

subsection \<open>Total hours as the specification words them\<close>

text \<open>
  The sum of the two sessions, first out minus first in and second out minus second in,
  in hours, rounded to 2 decimals.
\<close>

definition spec_hours :: "millis \<Rightarrow> rat" where
  "spec_hours ms = of_int ms / 3600000"

definition spec_round2 :: "rat \<Rightarrow> rat" where
  "spec_round2 x = of_int \<lfloor>x * 100 + 1 / 2\<rfloor> / 100"

definition spec_totalHours :: "millis \<Rightarrow> millis \<Rightarrow> millis \<Rightarrow> millis \<Rightarrow> rat" where
  "spec_totalHours firstIn firstOut secondIn secondOut =
     spec_round2 (spec_hours (firstOut - firstIn) + spec_hours (secondOut - secondIn))"

section \<open>Properties of the doubles\<close>

lemma pow2_powi: "pow2 k = 2 powi k"
  by (simp add: pow2_def power_int_def inverse_eq_divide power_one_over)

lemma pow2_pos: "0 < pow2 k"
  by (simp add: pow2_def)

lemma pow2_sub52: "pow2 (k - 52) = pow2 k / 2 ^ 52"
  by (simp add: pow2_powi power_int_diff)

text \<open>Rounding to the nearest integer moves a number by at most a half.\<close>

lemma round_half_even_err: "\<bar>of_int (round_half_even y) - y\<bar> \<le> 1 / 2"
proof -
  have "of_int \<lfloor>y\<rfloor> \<le> y" "y < of_int \<lfloor>y\<rfloor> + 1" by linarith+
  then show ?thesis
    unfolding round_half_even_def Let_def by (simp only: abs_if of_int_add of_int_1 split: if_splits) linarith
qed

text \<open>The power of two of the binary exponent is not above the number.\<close>

lemma binary_exponent_le:
  assumes "x \<noteq> 0"
  shows "pow2 (binary_exponent x) \<le> \<bar>x\<bar>"
proof (cases "1 \<le> \<bar>x\<bar>")
  case True
  let ?n = "\<lfloor>\<bar>x\<bar>\<rfloor>"
  have n: "0 < ?n" using True by linarith
  have "(2::int) ^ nat (bitlen ?n - 1) \<le> ?n"
    using bitlen_bounds [OF n] by simp
  then have "of_int ((2::int) ^ nat (bitlen ?n - 1)) \<le> (of_int ?n :: rat)"
    by (simp only: of_int_le_iff)
  then have "(2::rat) ^ nat (bitlen ?n - 1) \<le> of_int ?n"
    by simp
  moreover have "(of_int ?n :: rat) \<le> \<bar>x\<bar>" by linarith
  ultimately have b: "(2::rat) ^ nat (bitlen ?n - 1) \<le> \<bar>x\<bar>"
    by (rule order_trans)
  have "0 \<le> bitlen ?n - 1" using n bitlen_eq_zero_iff [of ?n] bitlen_nonneg [of ?n]
    by linarith
  then have "pow2 (binary_exponent x) = 2 ^ nat (bitlen ?n - 1)"
    using True by (simp add: binary_exponent_def pow2_def)
  with b show ?thesis by simp
next
  case False
  let ?n = "\<lceil>1 / \<bar>x\<bar>\<rceil> - 1"
  have ax: "0 < \<bar>x\<bar>" using assms by simp
  have "1 < 1 / \<bar>x\<bar>" using False ax by (simp add: field_simps)
  then have n: "0 < ?n" by linarith
  have "?n < 2 ^ nat (bitlen ?n)"
    using bitlen_bounds [OF n] by simp
  then have "\<lceil>1 / \<bar>x\<bar>\<rceil> \<le> 2 ^ nat (bitlen ?n)" by simp
  then have "(of_int \<lceil>1 / \<bar>x\<bar>\<rceil> :: rat) \<le> of_int (2 ^ nat (bitlen ?n))"
    by (simp only: of_int_le_iff)
  then have "(of_int \<lceil>1 / \<bar>x\<bar>\<rceil> :: rat) \<le> 2 ^ nat (bitlen ?n)"
    by simp
  moreover have "1 / \<bar>x\<bar> \<le> of_int \<lceil>1 / \<bar>x\<bar>\<rceil>" by (rule le_of_int_ceiling)
  ultimately have "1 / \<bar>x\<bar> \<le> 2 ^ nat (bitlen ?n)" by (rule order_trans [rotated])
  then have "1 / 2 ^ nat (bitlen ?n) \<le> \<bar>x\<bar>"
    using ax by (simp add: field_simps)
  moreover have "0 < bitlen ?n" using n bitlen_eq_zero_iff [of ?n] bitlen_nonneg [of ?n]
    by linarith
  ultimately show ?thesis
    using False by (simp add: binary_exponent_def pow2_def)
qed

text \<open>The nearest double is within a relative error of \<open>2 ^ - 53\<close>.\<close>

lemma js_double_err: "\<bar>js_double x - x\<bar> \<le> \<bar>x\<bar> / 2 ^ 53"
proof (cases "x = 0")
  case True
  then show ?thesis by (simp add: js_double_def)
next
  case False
  let ?p = "pow2 (binary_exponent x - 52)"
  have p: "0 < ?p" by (rule pow2_pos)
  have "js_double x - x = (of_int (round_half_even (x / ?p)) - x / ?p) * ?p"
    using False p by (simp add: js_double_def Let_def field_simps)
  then have "\<bar>js_double x - x\<bar> = \<bar>of_int (round_half_even (x / ?p)) - x / ?p\<bar> * ?p"
    using p by (simp add: abs_mult)
  also have "\<dots> \<le> 1 / 2 * ?p"
    using round_half_even_err [of "x / ?p"] p by (intro mult_right_mono) simp_all
  also have "\<dots> = pow2 (binary_exponent x) / 2 ^ 53"
    by (simp add: pow2_sub52)
  also have "\<dots> \<le> \<bar>x\<bar> / 2 ^ 53"
    using binary_exponent_le [OF False] by (simp add: divide_right_mono)
  finally show ?thesis .
qed

lemma js_double_near:
  assumes "\<bar>x\<bar> \<le> b"
  shows "\<bar>js_double x - x\<bar> \<le> b / 9007199254740992"
proof -
  have "\<bar>x\<bar> / 2 ^ 53 \<le> b / 2 ^ 53" using assms by (simp add: divide_right_mono)
  with js_double_err [of x] have "\<bar>js_double x - x\<bar> \<le> b / 2 ^ 53" by linarith
  then show ?thesis by simp
qed

lemma millis_bound:
  assumes "\<bar>d\<bar> < 2 ^ 40"
  shows "\<bar>of_int d :: rat\<bar> \<le> 1099511627776"
proof -
  have "\<bar>d\<bar> \<le> 1099511627776" using assms by simp
  then have "(of_int \<bar>d\<bar> :: rat) \<le> of_int 1099511627776"
    by (simp only: of_int_le_iff)
  then show ?thesis by simp
qed

text \<open>
  A duration of less than \<open>2 ^ 40\<close> ms (some 34 years) in hours: the double is within
  \<open>2 ^ - 33\<close> of the quotient.
\<close>

lemma hours_near:
  assumes "\<bar>d\<bar> < 2 ^ 40"
  shows "\<bar>js_double (js_double (of_int d) / 3600000) - of_int d / 3600000\<bar>
           \<le> 1 / 8589934592"
    and "\<bar>js_double (js_double (of_int d) / 3600000)\<bar> \<le> 524288"
proof -
  let ?x = "js_double (of_int d)"
  let ?y = "?x / 3600000"
  note d = millis_bound [OF assms]
  note x = js_double_near [OF d]
  have y: "\<bar>?y\<bar> \<le> 524287" using x d by linarith
  note z = js_double_near [OF y]
  have c: "(1000 * 60 * 60 :: rat) = 3600000" by simp
  show "\<bar>js_double (js_double (of_int d) / 3600000) - of_int d / 3600000\<bar>
           \<le> 1 / 8589934592"
    using x z by linarith
  show "\<bar>js_double (js_double (of_int d) / 3600000)\<bar> \<le> 524288"
    using y z by linarith
qed

text \<open>
  A number of hundredths of an hour is a number of ms over 36000. Unless it lies exactly
  half way between two integers, a number within \<open>2 ^ - 23\<close> of it rounds as it does.
\<close>

lemma round_near:
  fixes p :: rat and n :: int
  assumes "n mod 36000 \<noteq> 18000" and "\<bar>p - of_int n / 36000\<bar> \<le> 1 / 8388608"
  shows "\<lfloor>p + 1 / 2\<rfloor> = \<lfloor>of_int n / 36000 + 1 / 2 :: rat\<rfloor>"
proof -
  define q where "q = n div 36000"
  define r where "r = n mod 36000"
  have n: "n = 36000 * q + r" by (simp add: q_def r_def)
  have r: "0 \<le> r" "r < 36000" "r \<noteq> 18000" using assms(1) by (simp_all add: r_def)
  have e: "(of_int n :: rat) / 36000 = of_int q + of_int r / 36000"
    by (simp add: n)
  have b: "\<bar>p - (of_int q + of_int r / 36000)\<bar> \<le> 1 / 8388608"
    using assms(2) unfolding e .
  have q1: "(of_int (q + 1) :: rat) = of_int q + 1" by simp
  show ?thesis
  proof (cases "r < 18000")
    case True
    then have "r \<le> 17999" by simp
    then have u: "(of_int r :: rat) \<le> 17999" by simp
    have l: "(0 :: rat) \<le> of_int r" using r(1) by simp
    have "\<lfloor>p + 1 / 2\<rfloor> = q" using b u l by (intro floor_unique) linarith+
    moreover have "\<lfloor>of_int q + of_int r / 36000 + 1 / 2 :: rat\<rfloor> = q"
      using u l by (intro floor_unique) linarith+
    ultimately show ?thesis unfolding e by simp
  next
    case False
    with r have "18001 \<le> r" "r \<le> 35999" by simp_all
    then have u: "(18001 :: rat) \<le> of_int r" "(of_int r :: rat) \<le> 35999" by simp_all
    have "\<lfloor>p + 1 / 2\<rfloor> = q + 1"
      using b u by (intro floor_unique; unfold q1) linarith+
    moreover have "\<lfloor>of_int q + of_int r / 36000 + 1 / 2 :: rat\<rfloor> = q + 1"
      using u by (intro floor_unique; unfold q1) linarith+
    ultimately show ?thesis unfolding e by simp
  qed
qed

lemma session_step:
  fixes h d :: rat
  assumes "1 \<le> d" and "\<bar>h - d / 3600000\<bar> \<le> 1 / 8589934592"
  shows "0 < h" and "\<bar>h * 100 - d / 36000\<bar> \<le> 1 / 8388608"
  using assms by linarith+

lemma total_step:
  fixes p s m a d1 d2 :: rat
  assumes "\<bar>p - s * 100\<bar> \<le> 134217728 / 9007199254740992"
    and "\<bar>s - (m + a)\<bar> \<le> 1048576 / 9007199254740992"
    and "\<bar>m - d1 / 3600000\<bar> \<le> 1 / 8589934592"
    and "\<bar>a - d2 / 3600000\<bar> \<le> 1 / 8589934592"
  shows "\<bar>p - (d1 + d2) / 36000\<bar> \<le> 1 / 8388608"
proof -
  have "\<bar>p - (d1 / 36000 + d2 / 36000)\<bar> \<le> 1 / 8388608"
    using assms by linarith
  then show ?thesis by (simp only: add_divide_distrib)
qed

lemma total_near:
  assumes "\<bar>d1\<bar> < 2 ^ 40" and "\<bar>d2\<bar> < 2 ^ 40"
  shows "\<bar>js_double (js_double
            (js_double (js_double (of_int d1) / 3600000)
             + js_double (js_double (of_int d2) / 3600000)) * 100)
          - (of_int d1 + of_int d2) / 36000\<bar> \<le> 1 / 8388608"
proof -
  let ?m = "js_double (js_double (of_int d1) / 3600000)"
  let ?a = "js_double (js_double (of_int d2) / 3600000)"
  note m = hours_near [OF assms(1)]
  note a = hours_near [OF assms(2)]
  have ma: "\<bar>?m + ?a\<bar> \<le> 1048576"
    using m(2) a(2) by linarith
  let ?s = "js_double (?m + ?a)"
  note s = js_double_near [OF ma]
  have s100: "\<bar>?s * 100\<bar> \<le> 134217728" using s ma by linarith
  note p = js_double_near [OF s100]
  show ?thesis
    using p s m(1) a(1) by (rule total_step)
qed

section \<open>Properties of the first scanner\<close>

subsection \<open>What leaves the store alone\<close>

lemma db_emit [simp]: "db (emit es s) = db s"
  by (simp add: emit_def)

lemma db_provideFeedback [simp]: "db (provideFeedback v t s) = db s"
  by (simp add: provideFeedback_def)

lemma db_showTimingError [simp]: "db (showTimingError e emp v s) = db s"
  by (simp add: showTimingError_def Let_def)

lemma db_handleProcessingError [simp]: "db (handleProcessingError err s) = db s"
  by (simp add: handleProcessingError_def Let_def)

lemma db_showSuccessFeedback [simp]: "db (showSuccessFeedback emp a s) = db s"
  by (simp add: showSuccessFeedback_def)

lemma validate_store_error:
  "code err \<noteq> ''PGRST116'' \<Longrightarrow>
   validateAttendanceSequence (selectAttendance (Some err) d i t) now =
     \<lparr>isValid = False, nextAction = ''error'',
      errorMessage = Some ''Error validating attendance. Please try again.'',
      cooldownRemaining = None, canProceed = False\<rparr>"
  by (simp add: validateAttendanceSequence_def selectAttendance_def)

lemma validate_complete:
  assumes "timestamps_in_order a" and "second_check_out a \<noteq> None"
  shows "validateAttendanceSequence (QueryData (Some a)) now =
     \<lparr>isValid = False, nextAction = ''complete'',
      errorMessage = Some ''All attendance records for today are complete. No further check-ins allowed.'',
      cooldownRemaining = None, canProceed = False\<rparr>"
  using assms
  by (auto simp: validateAttendanceSequence_def timestamps_in_order_def)

text \<open>A scan whose validation cannot proceed never reaches \<open>processAttendance\<close>.\<close>

lemma try_rejected_db:
  assumes "\<And>emp :: employee. \<not> canProceed (validateAttendanceSequence
             (selectAttendance (validateQueryError e) (db s) (emp_id emp) (today e)) (t_validate e))"
  shows "db (fst (handleScanResult_try e q s)) = db s"
  by (simp add: handleScanResult_try_def Let_def assms split: query_result.splits option.splits)

lemma handleScanResult_db_via_try:
  "db (handleScanResult e q s) = db s \<or>
   db (handleScanResult e q s) =
     db (fst (handleScanResult_try e q (s\<lparr>scannerStatus := processing,
                    scanCache := (scanCache s)(q \<mapsto> t_scan e)\<rparr>)))"
  by (auto simp: handleScanResult_def Let_def split: prod.splits option.splits)

lemma process_existing_first_check_in:
  assumes "attendance_records (db s) (emp_id emp, today e) = Some a"
  shows "db (fst (processAttendance e emp ''first_check_in'' s)) = db s"
  using assms
  by (simp add: processAttendance_def selectAttendance_def insertAttendance_def Let_def
           split: option.splits query_result.splits prod.splits sum.splits)

lemma db_fst_count:
  "db (fst (case p of (s4, None) \<Rightarrow>
                        (if isMounted s4 then s4\<lparr>scanCount := scanCount s4 + 1\<rparr> else s4, None)
                    | (s4, Some err) \<Rightarrow> (s4, Some err))) = db (fst p)"
  by (cases p) (auto split: option.splits)

lemma complete_scan_db:
  fixes s :: scanner and e :: env and emp :: employee
  assumes rec: "attendance_records (db s) (emp_id emp, today e) = Some a"
    and ord: "timestamps_in_order a" and out: "second_check_out a \<noteq> None"
    and res: "filter (\<lambda>x. qr_code x = q \<and> is_active x) (employees (db s)) = [emp]"
  shows "db (handleScanResult e q s) = db s"
proof -
  let ?s = "s\<lparr>scannerStatus := processing, scanCache := (scanCache s)(q \<mapsto> t_scan e)\<rparr>"
  have "db (fst (handleScanResult_try e q ?s)) = db ?s"
  proof (cases "validateQueryError e")
    case None
    then show ?thesis
      using rec res validate_complete [OF ord out]
      by (simp add: handleScanResult_try_def Let_def single_def selectAttendance_def
               split: option.splits)
  next
    case (Some err)
    show ?thesis
    proof (cases "code err = ''PGRST116''")
      case False
      with Some show ?thesis
        by (intro try_rejected_db) (simp add: validate_store_error)
    next
      case True
      have v: "\<And>d i t now. validateAttendanceSequence (selectAttendance (Some err) d i t) now =
            \<lparr>isValid = True, nextAction = ''first_check_in'', errorMessage = None,
             cooldownRemaining = None, canProceed = True\<rparr>"
        using True by (simp add: validateAttendanceSequence_def selectAttendance_def)
      have p: "\<And>s'. db s' = db s \<Longrightarrow>
                  db (fst (processAttendance e emp ''first_check_in'' s')) = db s"
        using process_existing_first_check_in [of _ emp e a] rec by metis
      show ?thesis
        using Some res
        by (simp add: handleScanResult_try_def Let_def single_def v db_fst_count p
                 split: option.splits)
    qed
  qed
  with handleScanResult_db_via_try [of e q s] show ?thesis by auto
qed

subsection \<open>The cooldown between first check-out and second check-in\<close>

text \<open>
  C1. On a record with the first check-in and the first check-out set and no second
  check-in, a scan less than 3 minutes after the first check-out is rejected and carries
  the remaining time, 3 minutes minus the time elapsed; a later attempt inside the
  cooldown carries a strictly smaller remaining time; from 3 minutes on the scan is
  accepted as the second check-in.
\<close>

theorem cooldown_guard:
  fixes a :: attendance
  assumes "first_check_in a \<noteq> None" and "first_check_out a = Some firstOut"
    and "second_check_in a = None"
  shows "(now - firstOut < 3 * 60 * 1000 \<longrightarrow>
            \<not> canProceed (validateAttendanceSequence (QueryData (Some a)) now)
          \<and> \<not> isValid (validateAttendanceSequence (QueryData (Some a)) now)
          \<and> cooldownRemaining (validateAttendanceSequence (QueryData (Some a)) now)
              = Some (3 * 60 * 1000 - (now - firstOut)))
       \<and> (now - firstOut < 3 * 60 * 1000 \<and> now < later \<and> later - firstOut < 3 * 60 * 1000 \<longrightarrow>
            (\<exists>r r'. cooldownRemaining (validateAttendanceSequence (QueryData (Some a)) now)
                       = Some r
                  \<and> cooldownRemaining (validateAttendanceSequence (QueryData (Some a)) later)
                       = Some r'
                  \<and> r' < r))
       \<and> (now - firstOut \<ge> 3 * 60 * 1000 \<longrightarrow>
            canProceed (validateAttendanceSequence (QueryData (Some a)) now)
          \<and> isValid (validateAttendanceSequence (QueryData (Some a)) now)
          \<and> nextAction (validateAttendanceSequence (QueryData (Some a)) now)
              = ''second_check_in'')"
  using assms
  by (simp add: validateAttendanceSequence_def CHECKOUT_TO_CHECKIN_COOLDOWN_def Let_def)

theorem cooldown_guard_witness:
  "first_check_in (example_row (Some 0) (Some 1000) None None) \<noteq> None
   \<and> first_check_out (example_row (Some 0) (Some 1000) None None) = Some 1000
   \<and> second_check_in (example_row (Some 0) (Some 1000) None None) = None
   \<and> \<not> canProceed (validateAttendanceSequence
         (QueryData (Some (example_row (Some 0) (Some 1000) None None))) 61000)
   \<and> cooldownRemaining (validateAttendanceSequence
         (QueryData (Some (example_row (Some 0) (Some 1000) None None))) 61000) = Some 120000
   \<and> nextAction (validateAttendanceSequence
         (QueryData (Some (example_row (Some 0) (Some 1000) None None))) 181000)
       = ''second_check_in''"
proof -
  have h1: "first_check_in (example_row (Some 0) (Some 1000) None None) \<noteq> None"
    and h2: "first_check_out (example_row (Some 0) (Some 1000) None None) = Some 1000"
    and h3: "second_check_in (example_row (Some 0) (Some 1000) None None) = None"
    by (simp_all add: example_row_def)
  show ?thesis
    using h1 h2 h3 cooldown_guard [OF h1 h2 h3, of 61000 62000]
      cooldown_guard [OF h1 h2 h3, of 181000 181000]
    by simp
qed

subsection \<open>The complete day\<close>

text \<open>
  C5. On a record whose second check-out is set, a scan is rejected as complete whatever
  the time of the scan, and the scan of that employee leaves the store as it was.
\<close>

theorem complete_day_is_terminal:
  fixes s :: scanner and e :: env and emp :: employee and a :: attendance
  assumes "attendance_records (db s) (emp_id emp, today e) = Some a"
    and "timestamps_in_order a" and "second_check_out a \<noteq> None"
    and "filter (\<lambda>x. qr_code x = q \<and> is_active x) (employees (db s)) = [emp]"
  shows "validateAttendanceSequence (QueryData (Some a)) now =
           \<lparr>isValid = False, nextAction = ''complete'',
            errorMessage = Some ''All attendance records for today are complete. No further check-ins allowed.'',
            cooldownRemaining = None, canProceed = False\<rparr>
       \<and> db (handleScanResult e q s) = db s"
  using assms validate_complete complete_scan_db by blast

theorem complete_day_is_terminal_witness:
  "attendance_records
      (db (example_scanner (Some (example_row (Some 0) (Some 1000) (Some 200000) (Some 300000)))))
      (emp_id example_employee, today (example_env 400000))
     = Some (example_row (Some 0) (Some 1000) (Some 200000) (Some 300000))
   \<and> timestamps_in_order (example_row (Some 0) (Some 1000) (Some 200000) (Some 300000))
   \<and> second_check_out (example_row (Some 0) (Some 1000) (Some 200000) (Some 300000)) \<noteq> None
   \<and> filter (\<lambda>x. qr_code x = ''QR-1'' \<and> is_active x)
        (employees (db (example_scanner
           (Some (example_row (Some 0) (Some 1000) (Some 200000) (Some 300000))))))
      = [example_employee]
   \<and> nextAction (validateAttendanceSequence
        (QueryData (Some (example_row (Some 0) (Some 1000) (Some 200000) (Some 300000))))
        400001) = ''complete''
   \<and> db (handleScanResult (example_env 400000) ''QR-1''
          (example_scanner (Some (example_row (Some 0) (Some 1000) (Some 200000) (Some 300000)))))
      = db (example_scanner (Some (example_row (Some 0) (Some 1000) (Some 200000) (Some 300000))))"
proof -
  let ?a = "example_row (Some 0) (Some 1000) (Some 200000) (Some 300000)"
  have h1: "attendance_records (db (example_scanner (Some ?a)))
      (emp_id example_employee, today (example_env 400000)) = Some ?a"
    by (simp add: example_scanner_def example_store_def example_employee_def example_env_def)
  have h2: "timestamps_in_order ?a"
    by (simp add: timestamps_in_order_def example_row_def)
  have h3: "second_check_out ?a \<noteq> None"
    by (simp add: example_row_def)
  have h4: "filter (\<lambda>x. qr_code x = ''QR-1'' \<and> is_active x)
        (employees (db (example_scanner (Some ?a)))) = [example_employee]"
    by (simp add: example_scanner_def example_store_def example_employee_def)
  show ?thesis
    using h1 h2 h3 h4 complete_day_is_terminal [OF h1 h2 h3 h4, of 400001]
    by simp
qed

subsection \<open>A failing read of the store\<close>

text \<open>
  C4. When the read of today's record fails with a store error (any error but the
  no-row code \<^verbatim>\<open>PGRST116\<close>, which the code reads as no record), the validation is
  the rejection with the message to try again, and the scan leaves the store as it was.
\<close>

theorem store_read_failure_is_rejected:
  fixes s :: scanner and e :: env
  assumes "validateQueryError e = Some err" and "code err \<noteq> ''PGRST116''"
  shows "validateAttendanceSequence
           (selectAttendance (validateQueryError e) (db s) employee_id (today e)) (t_validate e)
         = \<lparr>isValid = False, nextAction = ''error'',
            errorMessage = Some ''Error validating attendance. Please try again.'',
            cooldownRemaining = None, canProceed = False\<rparr>
       \<and> db (handleScanResult e q s) = db s"
proof -
  let ?s = "s\<lparr>scannerStatus := processing, scanCache := (scanCache s)(q \<mapsto> t_scan e)\<rparr>"
  have "db (fst (handleScanResult_try e q ?s)) = db ?s"
    by (rule try_rejected_db) (simp add: assms validate_store_error)
  with handleScanResult_db_via_try [of e q s] have "db (handleScanResult e q s) = db s"
    by auto
  then show ?thesis
    by (simp add: assms validate_store_error)
qed

theorem store_read_failure_is_rejected_witness:
  "validateQueryError ((example_env 5000)\<lparr>validateQueryError :=
       Some (StoreError ''503'' ''Service Unavailable'')\<rparr>)
     = Some (StoreError ''503'' ''Service Unavailable'')
   \<and> code (StoreError ''503'' ''Service Unavailable'') \<noteq> ''PGRST116''
   \<and> canProceed (validateAttendanceSequence
        (selectAttendance
           (validateQueryError ((example_env 5000)\<lparr>validateQueryError :=
              Some (StoreError ''503'' ''Service Unavailable'')\<rparr>))
           (db (example_scanner None)) ''e1''
           (today ((example_env 5000)\<lparr>validateQueryError :=
              Some (StoreError ''503'' ''Service Unavailable'')\<rparr>)))
        (t_validate ((example_env 5000)\<lparr>validateQueryError :=
              Some (StoreError ''503'' ''Service Unavailable'')\<rparr>))) = False
   \<and> db (handleScanResult ((example_env 5000)\<lparr>validateQueryError :=
              Some (StoreError ''503'' ''Service Unavailable'')\<rparr>)
           ''QR-1'' (example_scanner None)) = db (example_scanner None)"
proof -
  let ?e = "(example_env 5000)\<lparr>validateQueryError :=
              Some (StoreError ''503'' ''Service Unavailable'')\<rparr>"
  have h1: "validateQueryError ?e = Some (StoreError ''503'' ''Service Unavailable'')"
    by simp
  have h2: "code (StoreError ''503'' ''Service Unavailable'') \<noteq> ''PGRST116''"
    by simp
  show ?thesis
    using h2 store_read_failure_is_rejected
                [OF h1 h2, of "example_scanner None" "''e1''" "''QR-1''"]
    by simp
qed

subsection \<open>The message of the cooldown\<close>

lemma cooldown_minutes_rounded_up:
  "r mod 60000 \<noteq> 0 \<Longrightarrow> math_ceil_div r (60 * 1000) = r div 60000 + 1"
  by (simp add: math_ceil_div_def zdiv_zminus1_eq_if)

text \<open>
  Whenever the remaining time is not a whole number of minutes, the minutes of the message
  are one more than the whole minutes that remain.
\<close>

lemma cooldown_message_minutes:
  fixes a :: attendance
  assumes "first_check_in a \<noteq> None" and "first_check_out a = Some firstOut"
    and "second_check_in a = None" and "now - firstOut < 3 * 60 * 1000"
    and "(3 * 60 * 1000 - (now - firstOut)) mod 60000 \<noteq> 0"
  shows "errorMessage (validateAttendanceSequence (QueryData (Some a)) now) =
     Some (''Cooldown period active. Please wait ''
           @ number_to_string ((3 * 60 * 1000 - (now - firstOut)) div 60000 + 1) @ ''m ''
           @ number_to_string
               (math_ceil_div (js_rem (3 * 60 * 1000 - (now - firstOut)) (60 * 1000)) 1000)
           @ ''s before checking in again.'')"
  using assms cooldown_minutes_rounded_up [of "180000 - (now - firstOut)"]
  by (simp add: validateAttendanceSequence_def CHECKOUT_TO_CHECKIN_COOLDOWN_def Let_def)

text \<open>
  C7. With 2 minutes 59 seconds of cooldown remaining (first check-out at 1000, scan at
  2000, 179000 ms left) the message says 3m 59s: the minutes are rounded up although the
  seconds are counted apart.
\<close>

theorem cooldown_message_at_2m59s:
  "cooldownRemaining (validateAttendanceSequence
      (QueryData (Some (example_row (Some 0) (Some 1000) None None))) 2000) = Some 179000
   \<and> errorMessage (validateAttendanceSequence
      (QueryData (Some (example_row (Some 0) (Some 1000) None None))) 2000)
     = Some ''Cooldown period active. Please wait 3m 59s before checking in again.''"
  by code_simp

subsection \<open>The scan cache\<close>

lemma scanCache_emit [simp]: "scanCache (emit es s) = scanCache s"
  by (simp add: emit_def)

lemma scanCache_provideFeedback [simp]: "scanCache (provideFeedback v t s) = scanCache s"
  by (simp add: provideFeedback_def)

lemma scanCache_showTimingError [simp]: "scanCache (showTimingError e emp v s) = scanCache s"
  by (simp add: showTimingError_def Let_def)

lemma scanCache_handleProcessingError [simp]:
  "scanCache (handleProcessingError err s) = scanCache s"
  by (simp add: handleProcessingError_def Let_def)

lemma scanCache_showSuccessFeedback [simp]:
  "scanCache (showSuccessFeedback emp a s) = scanCache s"
  by (simp add: showSuccessFeedback_def)

lemma scanCache_processAttendance [simp]:
  "scanCache (fst (processAttendance e emp action s)) = scanCache s"
  by (simp add: processAttendance_def Let_def
           split: option.splits query_result.splits prod.splits sum.splits)

lemma fst_count:
  "fst (case p of (s4, None) \<Rightarrow>
                        (if isMounted s4 then s4\<lparr>scanCount := scanCount s4 + 1\<rparr> else s4, None)
                    | (s4, Some err) \<Rightarrow> (s4, Some err))
   = (if snd p = None \<and> isMounted (fst p) then (fst p)\<lparr>scanCount := scanCount (fst p) + 1\<rparr>
      else fst p)"
  by (cases p) (auto split: option.splits)

lemma scanCache_try [simp]:
  "scanCache (fst (handleScanResult_try e q s)) = scanCache s"
  by (simp add: handleScanResult_try_def Let_def fst_count
           split: option.splits query_result.splits)

lemma scanCache_handleScanResult:
  "scanCache (handleScanResult e c s) =
     (if isMounted s \<and> \<not> recentlyScanned (render_scanCache e) c (t_scan e)
      then (scanCache s)(c \<mapsto> t_scan e) else scanCache s)"
proof -
  let ?s = "s\<lparr>scannerStatus := processing, scanCache := (scanCache s)(c \<mapsto> t_scan e)\<rparr>"
  obtain s2 r where t: "handleScanResult_try e c ?s = (s2, r)"
    by (cases "handleScanResult_try e c ?s")
  have "scanCache s2 = scanCache ?s"
    using scanCache_try [of e c ?s] t by simp
  then show ?thesis
    using t by (cases r) (simp_all add: handleScanResult_def Let_def)
qed

text \<open>
  A handler whose render holds an entry of the code that is less than 2000 ms old
  suppresses the scan; a handler whose render holds none, or an older one, processes it
  from a state in which the entry is written.
\<close>

lemma handler_suppresses:
  assumes "isMounted s" and "render_scanCache e c = Some t1" and "t1 \<noteq> 0"
    and "t_scan e - t1 < 2000"
  shows "handleScanResult e c s = s\<lparr>scannerStatus := ready\<rparr>"
  using assms
  by (simp add: handleScanResult_def recentlyScanned_def SCAN_COOLDOWN_def Let_def)

lemma handler_accepts:
  assumes "isMounted s"
    and "render_scanCache e c = None \<or> (render_scanCache e c = Some t1 \<and> t_scan e - t1 \<ge> 2000)"
  shows "scanCache (handleScanResult e c s) c = Some (t_scan e)"
    and "handleScanResult e c s =
        (case handleScanResult_try e c
                (s\<lparr>scannerStatus := processing, scanCache := (scanCache s)(c \<mapsto> t_scan e)\<rparr>) of
           (s2, None) \<Rightarrow> s2\<lparr>scannerStatus := ready\<rparr>
         | (s2, Some err) \<Rightarrow>
             (handleProcessingError err (provideFeedback (hasVibrate e) error s2))
               \<lparr>scannerStatus := ready\<rparr>)"
proof -
  have g: "\<not> recentlyScanned (render_scanCache e) c (t_scan e)"
    using assms(2) by (auto simp: recentlyScanned_def SCAN_COOLDOWN_def)
  show "scanCache (handleScanResult e c s) c = Some (t_scan e)"
    using g assms(1) by (simp add: scanCache_handleScanResult)
  show "handleScanResult e c s =
        (case handleScanResult_try e c
                (s\<lparr>scannerStatus := processing, scanCache := (scanCache s)(c \<mapsto> t_scan e)\<rparr>) of
           (s2, None) \<Rightarrow> s2\<lparr>scannerStatus := ready\<rparr>
         | (s2, Some err) \<Rightarrow>
             (handleProcessingError err (provideFeedback (hasVibrate e) error s2))
               \<lparr>scannerStatus := ready\<rparr>)"
    using g assms(1) by (simp add: handleScanResult_def Let_def)
qed

text \<open>
  The handler that runs reads the empty cache of the first render: it suppresses no scan,
  whatever the state holds.
\<close>

lemma first_render_never_recent:
  "\<not> recentlyScanned (render_scanCache (first_render onLine e)) c t"
  by (simp add: first_render_def recentlyScanned_def)

lemma onDecode_processes_every_scan:
  assumes "isMounted s"
  shows "scanCache (onDecode onLine e c s) c = Some (t_scan e)"
    and "onDecode onLine e c s =
        (case handleScanResult_try (first_render onLine e) c
                (s\<lparr>scannerStatus := processing, scanCache := (scanCache s)(c \<mapsto> t_scan e)\<rparr>) of
           (s2, None) \<Rightarrow> s2\<lparr>scannerStatus := ready\<rparr>
         | (s2, Some err) \<Rightarrow>
             (handleProcessingError err (provideFeedback (hasVibrate e) error s2))
               \<lparr>scannerStatus := ready\<rparr>)"
  using assms handler_accepts [of s "first_render onLine e" c]
  by (simp_all add: onDecode_def first_render_def)

lemma lastScan_emit2 [simp]: "lastScan (emit2 es s) = lastScan s"
  by (simp add: emit2_def)

lemma lastScan_updateScannerState [simp]: "lastScan (updateScannerState st s) = lastScan s"
  by (simp add: updateScannerState_def)

lemma lastScan_handleError [simp]: "lastScan (handleError err s) = lastScan s"
  by (simp add: handleError_def Let_def)

lemma lastScan_validateQRCode [simp]: "lastScan (fst (validateQRCode e q s)) = lastScan s"
  by (simp add: validateQRCode_def Let_def split: query_result.splits option.splits)

lemma lastScan_showSuccessFeedback2 [simp]:
  "lastScan (showSuccessFeedback2 emp a t s) = lastScan s"
  by (simp add: showSuccessFeedback2_def Let_def)

lemma lastScan_processAttendance2_try [simp]:
  "lastScan (fst (processAttendance2_try e emp s)) = lastScan s"
  by (simp add: processAttendance2_try_def Let_def
        split: query_result.splits option.splits sum.splits)

lemma lastScan_processAttendance2 [simp]:
  "lastScan (fst (processAttendance2 e emp s)) = lastScan s"
proof -
  obtain s1 r where t: "processAttendance2_try e emp s = (s1, r)"
    by (cases "processAttendance2_try e emp s")
  have "lastScan s1 = lastScan s"
    using lastScan_processAttendance2_try [of e emp s] t by simp
  then show ?thesis
    using t by (cases r) (simp_all add: processAttendance2_def)
qed

lemma lastScan_handleScan:
  "lastScan (handleScan e c b) =
     (if \<not> isRecentlySeen (lastScan b) c (t_seen e)
      then object_assign (lastScan b) c (t_recorded e) else lastScan b)"
proof -
  let ?b = "updateScannerState processing
              (b\<lparr>lastScan := object_assign (lastScan b) c (t_recorded e)\<rparr>)"
  obtain s3 r where v: "validateQRCode e c ?b = (s3, r)"
    by (cases "validateQRCode e c ?b")
  have l3: "lastScan s3 = object_assign (lastScan b) c (t_recorded e)"
    using lastScan_validateQRCode [of e c ?b] v by simp
  show ?thesis
  proof (cases r)
    case (Inl err)
    with v l3 show ?thesis by (simp add: handleScan_def Let_def)
  next
    case (Inr emp)
    obtain s4 r' where p: "processAttendance2 e emp s3 = (s4, r')"
      by (cases "processAttendance2 e emp s3")
    have "lastScan s4 = lastScan s3"
      using lastScan_processAttendance2 [of e emp s3] p by simp
    with v l3 Inr p show ?thesis
      by (cases r') (simp_all add: handleScan_def Let_def)
  qed
qed

text \<open>
  The second scanner, whose cache is a ref, suppresses and accepts as its cache says, for
  every code but \<^verbatim>\<open>__proto__\<close>.
\<close>

lemma handleScan_suppresses:
  assumes "c \<noteq> ''__proto__''" and "lastScan b c = Some t1" and "t1 \<noteq> 0"
    and "t_seen e - t1 < 2000"
  shows "handleScan e c b = b"
  using assms
  by (simp add: handleScan_def isRecentlySeen_def object_number_def COOLDOWN_PERIODS_SCAN_def)

lemma handleScan_accepts:
  assumes "c \<noteq> ''__proto__''"
    and "lastScan b c = None \<or> (lastScan b c = Some t1 \<and> t_seen e - t1 \<ge> 2000)"
  shows "lastScan (handleScan e c b) c = Some (t_recorded e)"
proof -
  have "\<not> isRecentlySeen (lastScan b) c (t_seen e)"
    using assms by (auto simp: isRecentlySeen_def object_number_def COOLDOWN_PERIODS_SCAN_def)
  then show ?thesis
    using assms(1) by (simp add: lastScan_handleScan object_assign_def)
qed

text \<open>
  C2 fails on the code. In the first scanner a scan of QR-1 at 5000 creates the record and
  writes the cache entry 5000; the scan of QR-1 at 6000, less than 2000 ms later, is not
  suppressed: it is processed and writes the first check-out. In the second scanner the
  code \<^verbatim>\<open>__proto__\<close> scanned at 5000 leaves no entry in the cache, and its scan at
  6000 is processed again.
\<close>

theorem rescan_inside_cooldown_is_processed:
  "scanCache (onDecode True (example_env 5000) ''QR-1'' (example_scanner None)) ''QR-1''
     = Some 5000
   \<and> t_scan (example_env 6000) - 5000 < 2000
   \<and> attendance_records
        (db (onDecode True (example_env 5000) ''QR-1'' (example_scanner None)))
        (''e1'', ''2025-06-26'')
      = Some (example_row (Some 5002) None None None)
   \<and> attendance_records
        (db (onDecode True (example_env 6000) ''QR-1''
               (onDecode True (example_env 5000) ''QR-1'' (example_scanner None))))
        (''e1'', ''2025-06-26'')
      = Some (example_row (Some 5002) (Some 6002) None None)
   \<and> lastScan (handleScan (example_env2 5000) ''__proto__'' (example_scanner2 None))
        ''__proto__'' = None
   \<and> effects2 (handleScan (example_env2 6000) ''__proto__''
                 (handleScan (example_env2 5000) ''__proto__'' (example_scanner2 None)))
      = [SelectEmployee ''__proto__'', SwalFire ''error'' ''Error'',
         AnnounceError ''Failed to validate QR code'',
         SelectEmployee ''__proto__'', SwalFire ''error'' ''Error'',
         AnnounceError ''Failed to validate QR code'']"
  by code_simp

subsection \<open>The order of the feedback\<close>

lemma effects_provideFeedback:
  "effects (provideFeedback v t s) =
     effects s @ (if v then [Vibrate (if t = success then [100, 50, 100] else [200, 100, 200])]
                  else [])"
  by (simp add: provideFeedback_def emit_def)

lemma prefix_showTimingError:
  "prefix xs (effects s) \<Longrightarrow> prefix xs (effects (showTimingError e emp v s))"
  by (simp add: showTimingError_def Let_def emit_def prefix_prefix)

lemma prefix_handleProcessingError:
  "prefix xs (effects s) \<Longrightarrow> prefix xs (effects (handleProcessingError err s))"
  by (simp add: handleProcessingError_def Let_def emit_def prefix_prefix)

lemma prefix_provideFeedback:
  "prefix xs (effects s) \<Longrightarrow> prefix xs (effects (provideFeedback v t s))"
  by (simp add: provideFeedback_def emit_def prefix_prefix)

lemma prefix_processAttendance:
  "prefix xs (effects s) \<Longrightarrow> prefix xs (effects (fst (processAttendance e emp action s)))"
  by (simp add: processAttendance_def Let_def showSuccessFeedback_def emit_def prefix_prefix
           split: option.splits query_result.splits prod.splits sum.splits)

lemma effects_fst_count:
  "effects (fst (case p of (s4, None) \<Rightarrow>
                        (if isMounted s4 then s4\<lparr>scanCount := scanCount s4 + 1\<rparr> else s4, None)
                    | (s4, Some err) \<Rightarrow> (s4, Some err))) = effects (fst p)"
  by (cases p) (auto split: option.splits)

lemma prefix_try:
  "prefix (effects s @ (if hasVibrate e then [Vibrate [100, 50, 100]] else []))
          (effects (fst (handleScanResult_try e q s)))"
  by (auto simp: handleScanResult_try_def Let_def effects_fst_count effects_provideFeedback
        emit_def prefix_prefix
        intro!: prefix_processAttendance prefix_showTimingError
        split: option.splits query_result.splits)

lemma prefix_handleScanResult:
  assumes "isMounted s" and "\<not> recentlyScanned (render_scanCache e) q (t_scan e)"
  shows "prefix (effects s @ (if hasVibrate e then [Vibrate [100, 50, 100]] else []))
          (effects (handleScanResult e q s))"
proof -
  let ?s = "s\<lparr>scannerStatus := processing, scanCache := (scanCache s)(q \<mapsto> t_scan e)\<rparr>"
  obtain s2 r where t: "handleScanResult_try e q ?s = (s2, r)"
    by (cases "handleScanResult_try e q ?s")
  have "prefix (effects s @ (if hasVibrate e then [Vibrate [100, 50, 100]] else [])) (effects s2)"
    using prefix_try [of ?s e q] t by simp
  then show ?thesis
    using assms t
    by (cases r) (auto simp: handleScanResult_def Let_def
                       intro!: prefix_handleProcessingError prefix_provideFeedback)
qed

text \<open>
  Every scan that the handler that runs receives starts with the success pattern (on a
  device that vibrates): the pattern comes before the query for the employee and before
  the validation.
\<close>

lemma success_feedback_first:
  assumes "isMounted s"
  shows "prefix (effects s @ (if hasVibrate e then [Vibrate [100, 50, 100]] else []))
          (effects (onDecode onLine e q s))"
proof -
  have v: "hasVibrate (first_render onLine e) = hasVibrate e"
    by (simp add: first_render_def)
  have "\<not> recentlyScanned (render_scanCache (first_render onLine e)) q
            (t_scan (first_render onLine e))"
    by (rule first_render_never_recent)
  from prefix_handleScanResult [OF assms this] show ?thesis
    using assms by (simp add: onDecode_def v)
qed

lemma unknown_code_scan:
  assumes "isMounted s" and "\<not> recentlyScanned (render_scanCache e) q (t_scan e)"
    and "render_isOnline e" and "employeeQueryError e = None"
    and "filter (\<lambda>x. qr_code x = q \<and> is_active x) (employees (db s)) = []"
  shows "handleScanResult e q s =
     s\<lparr>scanCache := (scanCache s)(q \<mapsto> t_scan e),
       errorText := ''Invalid QR code or employee not found'',
       effects := effects s @ (if hasVibrate e then [Vibrate [100, 50, 100]] else [])
                  @ [SelectEmployee q] @ (if hasVibrate e then [Vibrate [200, 100, 200]] else [])
                  @ [AnnounceError ''Invalid QR code or employee not found''],
       scannerStatus := ready\<rparr>"
  using assms
  by (simp add: handleScanResult_def handleScanResult_try_def Let_def single_def
        provideFeedback_def emit_def handleProcessingError_def)

text \<open>
  C10 fails on the code in its last part. The scan of QR-9, a code of no employee, at 5000
  gives the success pattern, the query, the error pattern and the announcement, in this
  order, and writes the cache entry 5000; the scan of QR-9 at 6000, less than 2000 ms
  later, is not suppressed: it gives the same four effects again.
\<close>

theorem unknown_code_rescan_is_processed:
  "effects (onDecode True (example_env 5000) ''QR-9'' (example_scanner None))
     = [Vibrate [100, 50, 100], SelectEmployee ''QR-9'', Vibrate [200, 100, 200],
        AnnounceError ''Invalid QR code or employee not found'']
   \<and> scanCache (onDecode True (example_env 5000) ''QR-9'' (example_scanner None)) ''QR-9''
     = Some 5000
   \<and> t_scan (example_env 6000) - 5000 < 2000
   \<and> effects (onDecode True (example_env 6000) ''QR-9''
                (onDecode True (example_env 5000) ''QR-9'' (example_scanner None)))
     = [Vibrate [100, 50, 100], SelectEmployee ''QR-9'', Vibrate [200, 100, 200],
        AnnounceError ''Invalid QR code or employee not found'',
        Vibrate [100, 50, 100], SelectEmployee ''QR-9'', Vibrate [200, 100, 200],
        AnnounceError ''Invalid QR code or employee not found'']"
  by code_simp

subsection \<open>What \<open>processAttendance\<close> writes\<close>

lemma processAttendance_db:
  fixes s :: scanner and e :: env and emp :: employee
  shows "db (fst (processAttendance e emp action s)) = db s
   \<or> (action = ''first_check_in'' \<and> attendance_records (db s) (emp_id emp, today e) = None
       \<and> db (fst (processAttendance e emp action s)) =
           (db s)\<lparr>attendance_records := (attendance_records (db s))((emp_id emp, today e) \<mapsto>
              \<lparr>first_check_in = Some (t_process e), first_check_out = None,
               second_check_in = None, second_check_out = None, total_hours = 0,
               is_late = fst (checkIfLate (workStart e) (t_process e)),
               late_duration = snd (checkIfLate (workStart e) (t_process e))\<rparr>)\<rparr>)
   \<or> (\<exists>a. attendance_records (db s) (emp_id emp, today e) = Some a
         \<and> (action = ''first_check_out'' \<and> db (fst (processAttendance e emp action s)) =
               (db s)\<lparr>attendance_records := (attendance_records (db s))((emp_id emp, today e) \<mapsto>
                  a\<lparr>first_check_out := Some (t_process e)\<rparr>)\<rparr>
            \<or> action = ''second_check_in'' \<and> db (fst (processAttendance e emp action s)) =
               (db s)\<lparr>attendance_records := (attendance_records (db s))((emp_id emp, today e) \<mapsto>
                  a\<lparr>second_check_in := Some (t_process e)\<rparr>)\<rparr>
            \<or> action = ''second_check_out'' \<and> db (fst (processAttendance e emp action s)) =
               (db s)\<lparr>attendance_records := (attendance_records (db s))((emp_id emp, today e) \<mapsto>
                  a\<lparr>second_check_out := Some (t_process e),
                    total_hours := calculateTotalHours a (t_process e)\<rparr>)\<rparr>))"
  by (simp add: processAttendance_def selectAttendance_def updateAttendance_def
        insertAttendance_def Let_def apply_update_def no_columns_def case_prod_beta
        split: option.splits query_result.splits sum.splits)

lemma process_first_check_out:
  fixes s :: scanner and e :: env and emp :: employee
  assumes "attendance_records (db s) (emp_id emp, today e) = Some a"
    and "processQueryError e = None" and "writeError e = None"
  shows "attendance_records (db (fst (processAttendance e emp ''first_check_out'' s)))
           (emp_id emp, today e) = Some (a\<lparr>first_check_out := Some (t_process e)\<rparr>)"
  using assms
  by (simp add: processAttendance_def selectAttendance_def updateAttendance_def Let_def
        apply_update_def no_columns_def)

lemma process_second_check_out:
  fixes s :: scanner and e :: env and emp :: employee
  assumes "attendance_records (db s) (emp_id emp, today e) = Some a"
    and "processQueryError e = None" and "writeError e = None"
  shows "attendance_records (db (fst (processAttendance e emp ''second_check_out'' s)))
           (emp_id emp, today e)
         = Some (a\<lparr>second_check_out := Some (t_process e),
                   total_hours := calculateTotalHours a (t_process e)\<rparr>)"
  using assms
  by (simp add: processAttendance_def selectAttendance_def updateAttendance_def Let_def
        apply_update_def no_columns_def)

lemma process_other_total_hours:
  fixes s :: scanner and e :: env and emp :: employee
  assumes "action \<noteq> ''second_check_out''"
    and "attendance_records (db (fst (processAttendance e emp action s))) k = Some a'"
  shows "(case attendance_records (db s) k of
            Some a \<Rightarrow> total_hours a' = total_hours a | None \<Rightarrow> total_hours a' = 0)"
  using assms processAttendance_db [of e emp action s]
  by (auto split: if_splits option.splits)

lemma validate_second_check_out:
  assumes "timestamps_in_order a"
    and "nextAction (validateAttendanceSequence (QueryData (Some a)) now) = ''second_check_out''"
  shows "first_check_in a \<noteq> None \<and> first_check_out a \<noteq> None \<and> second_check_in a \<noteq> None
         \<and> second_check_out a = None"
  using assms
  by (auto simp: validateAttendanceSequence_def timestamps_in_order_def Let_def split: if_splits)

lemma validate_first_check_out:
  assumes "first_check_in a \<noteq> None" and "first_check_out a = None"
  shows "validateAttendanceSequence (QueryData (Some a)) now =
           \<lparr>isValid = True, nextAction = ''first_check_out'', errorMessage = None,
            cooldownRemaining = None, canProceed = True\<rparr>"
  using assms by (simp add: validateAttendanceSequence_def)

section \<open>Properties of the second scanner\<close>

lemma db2_emit2 [simp]: "db2 (emit2 es s) = db2 s"
  by (simp add: emit2_def)

lemma db2_handleError [simp]: "db2 (handleError err s) = db2 s"
  by (simp add: handleError_def Let_def)

lemma db2_showSuccessFeedback2 [simp]: "db2 (showSuccessFeedback2 emp a t s) = db2 s"
  by (simp add: showSuccessFeedback2_def Let_def)

lemma decide_first_check_out:
  assumes "first_check_out a = None"
  shows "(t_now e - getTime (first_check_in a) < 3 * 60 * 1000 \<longrightarrow>
           decideUpdate e (Some a) = Inl (JsError ''Please wait at least 3 minutes between first check-in and first check-out''))
       \<and> (t_now e - getTime (first_check_in a) \<ge> 3 * 60 * 1000 \<longrightarrow>
           decideUpdate e (Some a) =
             Inr (no_columns\<lparr>set_first_check_out := Some (t_now e),
                    set_total_hours :=
                      Some (calculateHours (getTime (first_check_in a)) (t_now e))\<rparr>))"
  using assms by (simp add: decideUpdate_def Let_def)

lemma decide_second_check_out:
  assumes "first_check_out a \<noteq> None" and "second_check_in a \<noteq> None"
    and "second_check_out a = None"
  shows "decideUpdate e (Some a) =
     Inr (no_columns\<lparr>set_second_check_out := Some (t_now e),
            set_total_hours :=
              Some (calculateHours (getTime (first_check_in a)) (getTime (first_check_out a))
                    + calculateHours (getTime (second_check_in a)) (t_now e))\<rparr>)"
  using assms by (auto simp: decideUpdate_def Let_def)

lemma process2_early_first_check_out:
  assumes "attendance_records (db2 b) (emp_id emp, today2 e) = Some a"
    and "first_check_out a = None" and "t_now e - getTime (first_check_in a) < 3 * 60 * 1000"
  shows "db2 (fst (processAttendance2 e emp b)) = db2 b"
  using assms
  by (simp add: processAttendance2_def processAttendance2_try_def decideUpdate_def Let_def
        single_def upsertAttendance_def
        split: option.splits query_result.splits sum.splits)

lemma process2_first_check_out:
  assumes "attendance_records (db2 b) (emp_id emp, today2 e) = Some a"
    and "first_check_out a = None" and "t_now e - getTime (first_check_in a) \<ge> 3 * 60 * 1000"
    and "fetchError2 e = None" and "upsertError2 e = None"
  shows "attendance_records (db2 (fst (processAttendance2 e emp b))) (emp_id emp, today2 e)
         = Some (a\<lparr>first_check_out := Some (t_now e),
                   total_hours := calculateHours (getTime (first_check_in a)) (t_now e)\<rparr>)"
  using assms
  by (simp add: processAttendance2_def processAttendance2_try_def decideUpdate_def Let_def
        single_def upsertAttendance_def apply_update_def no_columns_def)

subsection \<open>First check-out\<close>

text \<open>
  C8, as stated, fails on the second scanner: one second after the first check-in, its
  \<open>processAttendance\<close> throws and the record keeps its first check-out empty.
\<close>

theorem second_scanner_refuses_early_first_check_out:
  "decideUpdate (example_env2 1000) (Some (example_row (Some 0) None None None))
     = Inl (JsError ''Please wait at least 3 minutes between first check-in and first check-out'')
   \<and> attendance_records
        (db2 (handleScan (example_env2 1000) ''QR-1''
               (example_scanner2 (Some (example_row (Some 0) None None None)))))
        (''e1'', ''2025-06-26'')
     = Some (example_row (Some 0) None None None)"
  by code_simp

text \<open>
  C8, amended. On a record with the first check-in set and no first check-out: the first
  scanner accepts a scan at any time as the first check-out and writes the time of the
  scan; the second scanner writes it only from 3 minutes after the first check-in on, and
  before that throws and leaves the store as it was.
\<close>

theorem first_check_out_rule:
  fixes s :: scanner and e :: env and emp :: employee and a :: attendance
    and b :: scanner2 and e2 :: env2
  assumes "first_check_in a = Some firstIn" and "first_check_out a = None"
  shows "validateAttendanceSequence (QueryData (Some a)) now =
           \<lparr>isValid = True, nextAction = ''first_check_out'', errorMessage = None,
            cooldownRemaining = None, canProceed = True\<rparr>
   \<and> (attendance_records (db s) (emp_id emp, today e) = Some a
        \<and> processQueryError e = None \<and> writeError e = None \<longrightarrow>
        attendance_records (db (fst (processAttendance e emp ''first_check_out'' s)))
           (emp_id emp, today e) = Some (a\<lparr>first_check_out := Some (t_process e)\<rparr>))
   \<and> (t_now e2 - firstIn < 3 * 60 * 1000 \<longrightarrow>
        decideUpdate e2 (Some a) = Inl (JsError ''Please wait at least 3 minutes between first check-in and first check-out'')
      \<and> (attendance_records (db2 b) (emp_id emp, today2 e2) = Some a \<longrightarrow>
           db2 (fst (processAttendance2 e2 emp b)) = db2 b))
   \<and> (t_now e2 - firstIn \<ge> 3 * 60 * 1000 \<longrightarrow>
        decideUpdate e2 (Some a) =
          Inr (no_columns\<lparr>set_first_check_out := Some (t_now e2),
                 set_total_hours := Some (calculateHours firstIn (t_now e2))\<rparr>)
      \<and> (attendance_records (db2 b) (emp_id emp, today2 e2) = Some a
           \<and> fetchError2 e2 = None \<and> upsertError2 e2 = None \<longrightarrow>
           attendance_records (db2 (fst (processAttendance2 e2 emp b))) (emp_id emp, today2 e2)
             = Some (a\<lparr>first_check_out := Some (t_now e2),
                       total_hours := calculateHours firstIn (t_now e2)\<rparr>)))"
proof -
  have g: "getTime (first_check_in a) = firstIn"
    using assms(1) by (simp add: getTime_def)
  have v: "validateAttendanceSequence (QueryData (Some a)) now =
           \<lparr>isValid = True, nextAction = ''first_check_out'', errorMessage = None,
            cooldownRemaining = None, canProceed = True\<rparr>"
    using assms by (intro validate_first_check_out) simp_all
  show ?thesis
    using v process_first_check_out [of s emp e a] decide_first_check_out [OF assms(2), of e2]
      process2_early_first_check_out [OF _ assms(2), of b emp e2]
      process2_first_check_out [OF _ assms(2), of b emp e2]
    by (simp add: g)
qed

theorem first_check_out_rule_witness:
  "first_check_in (example_row (Some 0) None None None) = Some 0
   \<and> first_check_out (example_row (Some 0) None None None) = None
   \<and> attendance_records (db (example_scanner (Some (example_row (Some 0) None None None))))
        (emp_id example_employee, today (example_env 1000))
       = Some (example_row (Some 0) None None None)
   \<and> processQueryError (example_env 1000) = None \<and> writeError (example_env 1000) = None
   \<and> canProceed (validateAttendanceSequence
        (QueryData (Some (example_row (Some 0) None None None))) 1001)
   \<and> attendance_records
        (db (fst (processAttendance (example_env 1000) example_employee ''first_check_out''
                    (example_scanner (Some (example_row (Some 0) None None None))))))
        (emp_id example_employee, today (example_env 1000))
       = Some ((example_row (Some 0) None None None)\<lparr>first_check_out := Some 1002\<rparr>)
   \<and> t_now (example_env2 1000) - 0 < 3 * 60 * 1000
   \<and> attendance_records (db2 (example_scanner2 (Some (example_row (Some 0) None None None))))
        (emp_id example_employee, today2 (example_env2 1000))
       = Some (example_row (Some 0) None None None)
   \<and> db2 (fst (processAttendance2 (example_env2 1000) example_employee
                 (example_scanner2 (Some (example_row (Some 0) None None None)))))
       = db2 (example_scanner2 (Some (example_row (Some 0) None None None)))
   \<and> t_now (example_env2 180000) - 0 \<ge> 3 * 60 * 1000
   \<and> fetchError2 (example_env2 180000) = None \<and> upsertError2 (example_env2 180000) = None
   \<and> attendance_records
        (db2 (fst (processAttendance2 (example_env2 180000) example_employee
                 (example_scanner2 (Some (example_row (Some 0) None None None))))))
        (emp_id example_employee, today2 (example_env2 180000))
       = Some ((example_row (Some 0) None None None)
                 \<lparr>first_check_out := Some 180000, total_hours := calculateHours 0 180000\<rparr>)"
proof -
  let ?a = "example_row (Some 0) None None None"
  have h1: "first_check_in ?a = Some 0" and h2: "first_check_out ?a = None"
    by (simp_all add: example_row_def)
  have a1: "attendance_records (db (example_scanner (Some ?a)))
        (emp_id example_employee, today (example_env 1000)) = Some ?a"
    by (simp add: example_scanner_def example_store_def example_employee_def example_env_def)
  have a2: "processQueryError (example_env 1000) = None" "writeError (example_env 1000) = None"
    "t_process (example_env 1000) = 1002"
    by (simp_all add: example_env_def)
  have b1: "t_now (example_env2 1000) - 0 < 3 * 60 * 1000"
    "t_now (example_env2 180000) - 0 \<ge> 3 * 60 * 1000"
    "t_now (example_env2 180000) = 180000"
    "fetchError2 (example_env2 180000) = None" "upsertError2 (example_env2 180000) = None"
    by (simp_all add: example_env2_def)
  have b2: "attendance_records (db2 (example_scanner2 (Some ?a)))
        (emp_id example_employee, today2 (example_env2 1000)) = Some ?a"
    "attendance_records (db2 (example_scanner2 (Some ?a)))
        (emp_id example_employee, today2 (example_env2 180000)) = Some ?a"
    by (simp_all add: example_scanner2_def example_store_def example_employee_def example_env2_def)
  have t: "today2 (example_env2 180000) = today2 (example_env2 1000)"
    by (simp add: example_env2_def)
  note early = first_check_out_rule [OF h1 h2, of 1001 "example_scanner (Some ?a)"
      example_employee "example_env 1000" "example_env2 1000" "example_scanner2 (Some ?a)"]
  note late = first_check_out_rule [OF h1 h2, of 1001 "example_scanner (Some ?a)"
      example_employee "example_env 1000" "example_env2 180000" "example_scanner2 (Some ?a)"]
  show ?thesis
    using h1 h2 a1 a2 b1 b2 early late
    by simp
qed

subsection \<open>Total hours\<close>

lemma calculateHours_agrees:
  assumes "start \<le> stop" and "stop - start < 2 ^ 40" and "(stop - start) mod 36000 \<noteq> 18000"
  shows "calculateHours start stop = spec_round2 (spec_hours (stop - start))"
proof (cases "stop = start")
  case True
  then show ?thesis
    by (simp add: calculateHours_def js_double_def toFixed2_def spec_round2_def spec_hours_def
          floor_eq_iff)
next
  case False
  let ?d = "stop - start"
  let ?h = "js_double (js_double (of_int ?d) / 3600000)"
  have d: "1 \<le> ?d" "\<bar>?d\<bar> < 2 ^ 40" using assms False by simp_all
  note n = hours_near(1) [OF d(2)]
  have "(1 :: rat) \<le> of_int ?d" using d(1) by (simp only: of_int_1_le_iff)
  note st = session_step [OF this n]
  note pos = st(1)
  from round_near [OF assms(3) st(2)]
  have f: "\<lfloor>?h * 100 + 1 / 2\<rfloor> = \<lfloor>of_int ?d / 36000 + 1 / 2 :: rat\<rfloor>" .
  have s: "spec_hours ?d * 100 = of_int ?d / 36000"
    by (simp add: spec_hours_def)
  have "calculateHours start stop = of_int \<lfloor>?h * 100 + 1 / 2\<rfloor> / 100"
    using pos by (simp add: calculateHours_def toFixed2_def)
  also have "\<dots> = spec_round2 (spec_hours ?d)"
    unfolding spec_round2_def s f ..
  finally show ?thesis .
qed

lemma hundredths:
  "(x / 3600000 + y / 3600000) * 100 = (x + y) / (36000 :: rat)"
  by (simp add: distrib_right add_divide_distrib)

lemma calculateTotalHours_agrees:
  assumes "\<bar>getTime (first_check_out a) - getTime (first_check_in a)\<bar> < 2 ^ 40"
    and "\<bar>t - getTime (second_check_in a)\<bar> < 2 ^ 40"
    and "(getTime (first_check_out a) - getTime (first_check_in a)
          + (t - getTime (second_check_in a))) mod 36000 \<noteq> 18000"
  shows "calculateTotalHours a t =
           spec_totalHours (getTime (first_check_in a)) (getTime (first_check_out a))
             (getTime (second_check_in a)) t"
proof -
  let ?d1 = "getTime (first_check_out a) - getTime (first_check_in a)"
  let ?d2 = "t - getTime (second_check_in a)"
  let ?p = "js_double (js_double
            (js_double (js_double (of_int ?d1) / 3600000)
             + js_double (js_double (of_int ?d2) / 3600000)) * 100)"
  have "\<bar>?p - of_int (?d1 + ?d2) / 36000\<bar> \<le> 1 / 8388608"
    using total_near [OF assms(1) assms(2)] by (simp only: of_int_add)
  from round_near [OF assms(3) this]
  have f: "\<lfloor>?p + 1 / 2\<rfloor> = \<lfloor>of_int (?d1 + ?d2) / 36000 + 1 / 2 :: rat\<rfloor>" .
  have s: "(spec_hours ?d1 + spec_hours ?d2) * 100 = of_int (?d1 + ?d2) / 36000"
    unfolding spec_hours_def of_int_add by (rule hundredths)
  have "calculateTotalHours a t = of_int \<lfloor>?p + 1 / 2\<rfloor> / 100"
    by (simp add: calculateTotalHours_def math_round_def Let_def)
  also have "\<dots> = spec_round2 (spec_hours ?d1 + spec_hours ?d2)"
    unfolding spec_round2_def s f ..
  finally show ?thesis by (simp only: spec_totalHours_def)
qed

text \<open>
  At a sum that is exactly half a hundredth the doubles can fall below the half: 3 s and
  3615 s, 1.005 hours, give 1 and not 1.01; 270 s, 0.075 hours, give 0.07 and not 0.08.
\<close>

lemma hours_at_a_tie:
  "calculateTotalHours (example_row (Some 0) (Some 3000) (Some 3000) None) 3618000 = 1
   \<and> spec_totalHours 0 3000 3000 3618000 = 101 / 100
   \<and> calculateHours 0 270000 = 7 / 100
   \<and> spec_round2 (spec_hours 270000) = 8 / 100"
  by code_simp

text \<open>
  C3, as stated, fails on the second scanner: at the first check-out, one hour after the
  first check-in, it writes 1 to the total hours of a record without a second session.
\<close>

theorem second_scanner_writes_partial_hours:
  "attendance_records
        (db2 (handleScan (example_env2 3600000) ''QR-1''
               (example_scanner2 (Some (example_row (Some 0) None None None)))))
        (''e1'', ''2025-06-26'')
     = Some \<lparr>first_check_in = Some 0, first_check_out = Some 3600000, second_check_in = None,
             second_check_out = None, total_hours = 1, is_late = False, late_duration = 0\<rparr>"
  by code_simp

text \<open>
  C3, amended. In the first scanner, \<open>processAttendance\<close> leaves the total hours of every
  record as they were unless the action is the second check-out (a new record has the 0
  of the table); at the second check-out the total is what \<open>calculateTotalHours\<close>
  computes in doubles from the two sessions, which is their sum in hours rounded to 2
  decimals whenever each session is shorter than \<open>2 ^ 40\<close> ms and the sum is not exactly
  half a hundredth of an hour; and on a record with timestamps in order the validation
  chooses the second check-out only when both check-ins and the first check-out are set.
  In the second scanner the total is written with every check-out and with the first
  check-in: 0 at the first check-in, the first session alone at the first check-out, and
  at the second check-out the sum of the two sessions, each rounded to 2 decimals by
  \<open>calculateHours\<close>, which rounds a session of less than \<open>2 ^ 40\<close> ms as the
  specification does unless it is exactly half a hundredth of an hour.
\<close>

theorem total_hours_written:
  fixes s :: scanner and e :: env and emp :: employee and a :: attendance and e2 :: env2
  shows
   "(action \<noteq> ''second_check_out''
       \<and> attendance_records (db (fst (processAttendance e emp action s))) k = Some a' \<longrightarrow>
       (case attendance_records (db s) k of
          Some r \<Rightarrow> total_hours a' = total_hours r | None \<Rightarrow> total_hours a' = 0))
  \<and> (attendance_records (db s) (emp_id emp, today e) = Some a
       \<and> processQueryError e = None \<and> writeError e = None \<longrightarrow>
       attendance_records (db (fst (processAttendance e emp ''second_check_out'' s)))
           (emp_id emp, today e)
         = Some (a\<lparr>second_check_out := Some (t_process e),
                   total_hours := calculateTotalHours a (t_process e)\<rparr>))
  \<and> (\<bar>getTime (first_check_out a) - getTime (first_check_in a)\<bar> < 2 ^ 40
       \<and> \<bar>t - getTime (second_check_in a)\<bar> < 2 ^ 40
       \<and> (getTime (first_check_out a) - getTime (first_check_in a)
            + (t - getTime (second_check_in a))) mod 36000 \<noteq> 18000 \<longrightarrow>
       calculateTotalHours a t =
         spec_totalHours (getTime (first_check_in a)) (getTime (first_check_out a))
           (getTime (second_check_in a)) t)
  \<and> (timestamps_in_order a
       \<and> nextAction (validateAttendanceSequence (QueryData (Some a)) now) = ''second_check_out'' \<longrightarrow>
       first_check_in a \<noteq> None \<and> first_check_out a \<noteq> None \<and> second_check_in a \<noteq> None
       \<and> second_check_out a = None)
  \<and> decideUpdate e2 None =
       Inr (no_columns\<lparr>set_first_check_in := Some (t_now e2),
              set_is_late := Some (isLate (scheduleTime e2) (t_now e2)),
              set_total_hours := Some 0\<rparr>)
  \<and> (first_check_out a = None \<and> t_now e2 - getTime (first_check_in a) \<ge> 3 * 60 * 1000 \<longrightarrow>
       decideUpdate e2 (Some a) =
         Inr (no_columns\<lparr>set_first_check_out := Some (t_now e2),
                set_total_hours :=
                  Some (calculateHours (getTime (first_check_in a)) (t_now e2))\<rparr>))
  \<and> (first_check_out a \<noteq> None \<and> second_check_in a \<noteq> None \<and> second_check_out a = None \<longrightarrow>
       decideUpdate e2 (Some a) =
         Inr (no_columns\<lparr>set_second_check_out := Some (t_now e2),
                set_total_hours :=
                  Some (calculateHours (getTime (first_check_in a)) (getTime (first_check_out a))
                        + calculateHours (getTime (second_check_in a)) (t_now e2))\<rparr>))
  \<and> (start \<le> stop \<and> stop - start < 2 ^ 40 \<and> (stop - start) mod 36000 \<noteq> 18000 \<longrightarrow>
       calculateHours start stop = spec_round2 (spec_hours (stop - start)))"
proof -
  have n: "decideUpdate e2 None =
       Inr (no_columns\<lparr>set_first_check_in := Some (t_now e2),
              set_is_late := Some (isLate (scheduleTime e2) (t_now e2)),
              set_total_hours := Some 0\<rparr>)"
    by (simp add: decideUpdate_def Let_def)
  show ?thesis
    using n process_other_total_hours [of action e emp s k a']
      process_second_check_out [of s emp e a]
      validate_second_check_out [of a now]
      decide_first_check_out [of a e2] decide_second_check_out [of a e2]
      calculateTotalHours_agrees [of a t] calculateHours_agrees [of start stop]
    by blast
qed

theorem total_hours_written_witness:
  "''first_check_out'' \<noteq> ''second_check_out''
   \<and> attendance_records
        (db (fst (processAttendance (example_env 1000) example_employee ''first_check_out''
                    (example_scanner (Some (example_row (Some 0) None None None))))))
        (''e1'', ''2025-06-26'')
       = Some (example_row (Some 0) (Some 1002) None None)
   \<and> total_hours (example_row (Some 0) (Some 1002) None None) = 0
   \<and> attendance_records
        (db (example_scanner (Some (example_row (Some 0) (Some 900000) (Some 1080000) None))))
        (emp_id example_employee, today (example_env 28499998))
       = Some (example_row (Some 0) (Some 900000) (Some 1080000) None)
   \<and> processQueryError (example_env 28499998) = None \<and> writeError (example_env 28499998) = None
   \<and> attendance_records
        (db (fst (processAttendance (example_env 28499998) example_employee ''second_check_out''
                    (example_scanner
                       (Some (example_row (Some 0) (Some 900000) (Some 1080000) None))))))
        (emp_id example_employee, today (example_env 28499998))
       = Some ((example_row (Some 0) (Some 900000) (Some 1080000) None)
                 \<lparr>second_check_out := Some 28500000, total_hours := 787 / 100\<rparr>)
   \<and> timestamps_in_order (example_row (Some 0) (Some 900000) (Some 1080000) None)
   \<and> nextAction (validateAttendanceSequence
        (QueryData (Some (example_row (Some 0) (Some 900000) (Some 1080000) None))) 28499999)
       = ''second_check_out''
   \<and> first_check_out (example_row (Some 0) None None None) = None
   \<and> t_now (example_env2 3600000) - getTime (first_check_in (example_row (Some 0) None None None))
        \<ge> 3 * 60 * 1000
   \<and> decideUpdate (example_env2 3600000) (Some (example_row (Some 0) None None None))
       = Inr (no_columns\<lparr>set_first_check_out := Some 3600000, set_total_hours := Some 1\<rparr>)
   \<and> decideUpdate (example_env2 28500000)
        (Some (example_row (Some 0) (Some 900000) (Some 1080000) None))
       = Inr (no_columns\<lparr>set_second_check_out := Some 28500000,
                set_total_hours := Some (calculateHours 0 900000
                                         + calculateHours 1080000 28500000)\<rparr>)
   \<and> \<bar>getTime (first_check_out (example_row (Some 0) (Some 900000) (Some 1080000) None))
        - getTime (first_check_in (example_row (Some 0) (Some 900000) (Some 1080000) None))\<bar>
       < 2 ^ 40
   \<and> \<bar>28500000
        - getTime (second_check_in (example_row (Some 0) (Some 900000) (Some 1080000) None))\<bar>
       < 2 ^ 40
   \<and> (getTime (first_check_out (example_row (Some 0) (Some 900000) (Some 1080000) None))
        - getTime (first_check_in (example_row (Some 0) (Some 900000) (Some 1080000) None))
        + (28500000
           - getTime (second_check_in (example_row (Some 0) (Some 900000) (Some 1080000) None))))
       mod 36000 \<noteq> 18000
   \<and> spec_totalHours 0 900000 1080000 28500000 = 787 / 100
   \<and> (0 :: int) \<le> 3600000 \<and> (3600000 :: int) - 0 < 2 ^ 40
   \<and> ((3600000 :: int) - 0) mod 36000 \<noteq> 18000
   \<and> calculateHours 0 3600000 = spec_round2 (spec_hours (3600000 - 0))"
proof -
  let ?a1 = "example_row (Some 0) None None None"
  let ?a3 = "example_row (Some 0) (Some 900000) (Some 1080000) None"
  have p1: "''first_check_out'' \<noteq> ''second_check_out''" by simp
  have p2: "attendance_records
        (db (fst (processAttendance (example_env 1000) example_employee ''first_check_out''
                    (example_scanner (Some ?a1))))) (''e1'', ''2025-06-26'')
       = Some (example_row (Some 0) (Some 1002) None None)"
    by code_simp
  have p3: "attendance_records (db (example_scanner (Some ?a1))) (''e1'', ''2025-06-26'')
       = Some ?a1" "total_hours ?a1 = 0"
    by (simp_all add: example_scanner_def example_store_def example_row_def)
  have q1: "attendance_records (db (example_scanner (Some ?a3)))
        (emp_id example_employee, today (example_env 28499998)) = Some ?a3"
    by (simp add: example_scanner_def example_store_def example_employee_def example_env_def)
  have q2: "processQueryError (example_env 28499998) = None"
    "writeError (example_env 28499998) = None" "t_process (example_env 28499998) = 28500000"
    by (simp_all add: example_env_def)
  have q3: "calculateTotalHours ?a3 28500000 = 787 / 100"
    by code_simp
  have q4: "timestamps_in_order ?a3"
    by (simp add: timestamps_in_order_def example_row_def)
  have q5: "nextAction (validateAttendanceSequence (QueryData (Some ?a3)) 28499999)
       = ''second_check_out''"
    by (simp add: validateAttendanceSequence_def example_row_def)
  have r1: "first_check_out ?a1 = None"
    "t_now (example_env2 3600000) - getTime (first_check_in ?a1) \<ge> 3 * 60 * 1000"
    "getTime (first_check_in ?a1) = 0" "t_now (example_env2 3600000) = 3600000"
    by (simp_all add: example_row_def example_env2_def getTime_def)
  have r2: "calculateHours 0 3600000 = 1" by code_simp
  have r3: "first_check_out ?a3 \<noteq> None \<and> second_check_in ?a3 \<noteq> None
            \<and> second_check_out ?a3 = None"
    "getTime (first_check_in ?a3) = 0" "getTime (first_check_out ?a3) = 900000"
    "getTime (second_check_in ?a3) = 1080000" "t_now (example_env2 28500000) = 28500000"
    by (simp_all add: example_row_def example_env2_def getTime_def)
  note one = total_hours_written [where action = "''first_check_out''" and e = "example_env 1000"
      and emp = example_employee and s = "example_scanner (Some ?a1)"
      and k = "(''e1'', ''2025-06-26'')" and a' = "example_row (Some 0) (Some 1002) None None"
      and a = ?a1 and now = 0 and ?e2.0 = "example_env2 3600000"
      and t = 28500000 and start = 0 and stop = 3600000]
  note two = total_hours_written [where action = "''first_check_out''"
      and e = "example_env 28499998"
      and emp = example_employee and s = "example_scanner (Some ?a3)"
      and k = "(''e1'', ''2025-06-26'')" and a' = "example_row (Some 0) (Some 1002) None None"
      and a = ?a3 and now = 28499999 and ?e2.0 = "example_env2 28500000"
      and t = 28500000 and start = 0 and stop = 3600000]
  have c1: "total_hours (example_row (Some 0) (Some 1002) None None) = 0"
    using one p1 p2 p3 by simp
  have c2: "attendance_records
        (db (fst (processAttendance (example_env 28499998) example_employee ''second_check_out''
                    (example_scanner (Some ?a3)))))
        (emp_id example_employee, today (example_env 28499998))
       = Some (?a3\<lparr>second_check_out := Some 28500000, total_hours := 787 / 100\<rparr>)"
    using two q1 q2 q3 by simp
  have c3: "decideUpdate (example_env2 3600000) (Some ?a1)
       = Inr (no_columns\<lparr>set_first_check_out := Some 3600000, set_total_hours := Some 1\<rparr>)"
    using one r1 r2 by simp
  have c4: "decideUpdate (example_env2 28500000) (Some ?a3)
       = Inr (no_columns\<lparr>set_second_check_out := Some 28500000,
                set_total_hours := Some (calculateHours 0 900000
                                         + calculateHours 1080000 28500000)\<rparr>)"
    using two r3 by simp
  have t1: "\<bar>getTime (first_check_out ?a3) - getTime (first_check_in ?a3)\<bar> < 2 ^ 40"
    "\<bar>28500000 - getTime (second_check_in ?a3)\<bar> < 2 ^ 40"
    "(getTime (first_check_out ?a3) - getTime (first_check_in ?a3)
        + (28500000 - getTime (second_check_in ?a3))) mod 36000 \<noteq> 18000"
    by (simp_all add: r3)
  have t2: "(0 :: int) \<le> 3600000" "(3600000 :: int) - 0 < 2 ^ 40"
    "((3600000 :: int) - 0) mod 36000 \<noteq> 18000"
    by simp_all
  have c5: "spec_totalHours 0 900000 1080000 28500000 = 787 / 100"
    using two t1 q3 r3 by simp
  have c6: "calculateHours 0 3600000 = spec_round2 (spec_hours (3600000 - 0))"
    using two t2 by blast
  show ?thesis
    using p1 p2 q1 q2 q4 q5 r1 c1 c2 c3 c4 c5 c6 t1 t2 by simp
qed

subsection \<open>Records stay in order\<close>

lemma store_in_order_upd:
  "store_in_order d \<Longrightarrow> timestamps_in_order r \<Longrightarrow>
   store_in_order (d\<lparr>attendance_records := (attendance_records d)(k \<mapsto> r)\<rparr>)"
  by (simp add: store_in_order_def)

lemma validate_action:
  "canProceed (validateAttendanceSequence answer now) \<Longrightarrow>
     nextAction (validateAttendanceSequence answer now) = ''first_check_in''
       \<and> (\<forall>a. answer \<noteq> QueryData (Some a))
   \<or> (\<exists>a. answer = QueryData (Some a)
        \<and> (nextAction (validateAttendanceSequence answer now) = ''first_check_out''
             \<and> first_check_in a \<noteq> None \<and> first_check_out a = None
           \<or> nextAction (validateAttendanceSequence answer now) = ''second_check_in''
             \<and> first_check_in a \<noteq> None \<and> first_check_out a \<noteq> None \<and> second_check_in a = None
           \<or> nextAction (validateAttendanceSequence answer now) = ''second_check_out''
             \<and> second_check_in a \<noteq> None \<and> second_check_out a = None))"
  by (auto simp: validateAttendanceSequence_def Let_def
        split: query_result.splits option.splits if_splits)

lemma try_db:
  fixes s :: scanner and e :: env
  shows "db (fst (handleScanResult_try e q s)) = db s
   \<or> (\<exists>(emp :: employee) s3. db s3 = db s
        \<and> canProceed (validateAttendanceSequence
             (selectAttendance (validateQueryError e) (db s) (emp_id emp) (today e)) (t_validate e))
        \<and> db (fst (handleScanResult_try e q s)) =
            db (fst (processAttendance e emp
                 (nextAction (validateAttendanceSequence
                    (selectAttendance (validateQueryError e) (db s) (emp_id emp) (today e))
                    (t_validate e))) s3)))"
  apply (simp add: handleScanResult_try_def Let_def db_fst_count
        split: query_result.splits option.splits)
  apply (intro allI impI conjI)
  subgoal for emp
    apply (rule disjI2)
    apply (rule exI [of _ emp])
    apply (rule exI [of _ "emit [SelectAttendance (emp_id emp) (today e)]
                             (emit [SelectEmployee q] (provideFeedback (hasVibrate e) success s))"])
    apply simp
    done
  done

lemma process_keeps_order:
  fixes s :: scanner and e :: env and emp :: employee
  assumes ord: "store_in_order (db s)"
    and can: "canProceed (validateAttendanceSequence
             (selectAttendance failure (db s) (emp_id emp) (today e)) now)"
  shows "store_in_order (db (fst (processAttendance e emp
            (nextAction (validateAttendanceSequence
               (selectAttendance failure (db s) (emp_id emp) (today e)) now)) s)))"
proof -
  let ?ans = "selectAttendance failure (db s) (emp_id emp) (today e)"
  let ?act = "nextAction (validateAttendanceSequence ?ans now)"
  let ?k = "(emp_id emp, today e)"
  have sel: "\<And>a. ?ans = QueryData (Some a) \<Longrightarrow> attendance_records (db s) ?k = Some a"
    by (auto simp: selectAttendance_def split: option.splits)
  have rowok: "\<And>a. attendance_records (db s) ?k = Some a \<Longrightarrow> timestamps_in_order a"
    using ord by (auto simp: store_in_order_def)
  from processAttendance_db [of e emp ?act s] validate_action [OF can]
  show ?thesis
    using ord sel rowok
    by (elim disjE conjE exE)
       (auto intro!: store_in_order_upd simp: timestamps_in_order_def)
qed

lemma handleScanResult_keeps_order:
  fixes s :: scanner and e :: env
  assumes "store_in_order (db s)"
  shows "store_in_order (db (handleScanResult e q s))"
proof -
  let ?s = "s\<lparr>scannerStatus := processing, scanCache := (scanCache s)(q \<mapsto> t_scan e)\<rparr>"
  have "store_in_order (db (fst (handleScanResult_try e q ?s)))"
  proof -
    from try_db [of e q ?s] show ?thesis
    proof (elim disjE exE conjE)
      assume "db (fst (handleScanResult_try e q ?s)) = db ?s"
      with assms show ?thesis by simp
    next
      fix emp :: employee and s3 :: scanner
      assume d: "db s3 = db ?s"
        and c: "canProceed (validateAttendanceSequence
             (selectAttendance (validateQueryError e) (db ?s) (emp_id emp) (today e))
             (t_validate e))"
        and r: "db (fst (handleScanResult_try e q ?s)) =
            db (fst (processAttendance e emp
                 (nextAction (validateAttendanceSequence
                    (selectAttendance (validateQueryError e) (db ?s) (emp_id emp) (today e))
                    (t_validate e))) s3))"
      have "store_in_order (db s3)" using assms d by simp
      from process_keeps_order [OF this, of "validateQueryError e" emp e "t_validate e"] c d r
      show ?thesis by simp
    qed
  qed
  with handleScanResult_db_via_try [of e q s] assms show ?thesis by auto
qed

lemma decideUpdate_keeps_order:
  assumes "decideUpdate e existing = Inr u"
    and "\<And>r. existing = Some r \<Longrightarrow> timestamps_in_order r"
  shows "timestamps_in_order
           (apply_update u (case existing of None \<Rightarrow> default_row | Some r \<Rightarrow> r))"
  using assms
  by (cases existing)
     (auto simp: decideUpdate_def Let_def apply_update_def no_columns_def default_row_def
        timestamps_in_order_def split: if_splits)

lemma processAttendance2_db:
  fixes b :: scanner2 and e :: env2 and emp :: employee
  shows "db2 (fst (processAttendance2 e emp b)) = db2 b
   \<or> (\<exists>u. decideUpdate e (attendance_records (db2 b) (emp_id emp, today2 e)) = Inr u
        \<and> db2 (fst (processAttendance2 e emp b)) =
            (db2 b)\<lparr>attendance_records := (attendance_records (db2 b))((emp_id emp, today2 e) \<mapsto>
               apply_update u (case attendance_records (db2 b) (emp_id emp, today2 e) of
                                 None \<Rightarrow> default_row | Some r \<Rightarrow> r))\<rparr>)"
  by (auto simp: processAttendance2_def processAttendance2_try_def Let_def single_def
        upsertAttendance_def
        split: option.splits query_result.splits sum.splits)

lemma handleScan_db:
  fixes b :: scanner2 and e :: env2
  shows "db2 (handleScan e q b) = db2 b
    \<or> (\<exists>(emp :: employee) b'. db2 b' = db2 b
          \<and> db2 (handleScan e q b) = db2 (fst (processAttendance2 e emp b')))"
proof (cases "isRecentlySeen (lastScan b) q (t_seen e)")
  case True
  then show ?thesis by (simp add: handleScan_def)
next
  case False
  let ?b = "updateScannerState processing
              (b\<lparr>lastScan := object_assign (lastScan b) q (t_recorded e)\<rparr>)"
  obtain s3 r where v: "validateQRCode e q ?b = (s3, r)"
    by (cases "validateQRCode e q ?b")
  have d3: "db2 s3 = db2 b"
    using v by (auto simp: validateQRCode_def Let_def updateScannerState_def
                   split: query_result.splits option.splits)
  show ?thesis
  proof (cases r)
    case (Inl err)
    with v d3 False show ?thesis
      by (simp add: handleScan_def Let_def updateScannerState_def)
  next
    case (Inr emp)
    obtain s4 r' where p: "processAttendance2 e emp s3 = (s4, r')"
      by (cases "processAttendance2 e emp s3")
    have "db2 (handleScan e q b) = db2 s4"
      using v Inr p False
      by (cases r') (simp_all add: handleScan_def Let_def updateScannerState_def)
    with p d3 show ?thesis
      by (metis fst_conv)
  qed
qed

lemma handleScan_keeps_order:
  fixes b :: scanner2 and e :: env2
  assumes "store_in_order (db2 b)"
  shows "store_in_order (db2 (handleScan e q b))"
proof -
  have step: "store_in_order (db2 (fst (processAttendance2 e emp b')))"
    if "db2 b' = db2 b" for emp :: employee and b' :: scanner2
  proof -
    have o: "store_in_order (db2 b')" using assms that by simp
    from processAttendance2_db [of e emp b'] show ?thesis
    proof (elim disjE exE conjE)
      assume "db2 (fst (processAttendance2 e emp b')) = db2 b'"
      with o show ?thesis by simp
    next
      fix u
      assume u: "decideUpdate e (attendance_records (db2 b') (emp_id emp, today2 e)) = Inr u"
        and d: "db2 (fst (processAttendance2 e emp b')) =
            (db2 b')\<lparr>attendance_records := (attendance_records (db2 b'))((emp_id emp, today2 e) \<mapsto>
               apply_update u (case attendance_records (db2 b') (emp_id emp, today2 e) of
                                 None \<Rightarrow> default_row | Some r \<Rightarrow> r))\<rparr>"
      have "timestamps_in_order (apply_update u
              (case attendance_records (db2 b') (emp_id emp, today2 e) of
                 None \<Rightarrow> default_row | Some r \<Rightarrow> r))"
        using o by (intro decideUpdate_keeps_order [OF u]) (auto simp: store_in_order_def)
      with o d show ?thesis by (simp add: store_in_order_upd)
    qed
  qed
  from handleScan_db [of e q b] show ?thesis
    using assms step by (elim disjE exE conjE) simp_all
qed

section \<open>Properties of the feedback system\<close>

text \<open>
  C6. With the cooldown at its default of 2000 ms, a call less than 2000 ms after a call
  that dispatched is a no-op: no channel effect and the same state, whatever the kinds of
  the two calls, the elements given and the support for vibration.
\<close>

theorem feedback_cooldown_is_global:
  fixes fs :: feedback_system
  assumes "\<not> (t1 - lastFeedbackTime fs < feedbackCooldown fs)"
      and "feedbackCooldown fs = 2000" and "t2 - t1 < 2000"
  shows "FeedbackSystem_provideFeedback v2 t2 k2 el2
           (fst (FeedbackSystem_provideFeedback v1 t1 k1 el1 fs))
         = (fst (FeedbackSystem_provideFeedback v1 t1 k1 el1 fs), [])"
  using assms
  by (cases k1) (simp_all add: FeedbackSystem_provideFeedback_def Let_def)

theorem feedback_cooldown_is_global_witness:
  "\<not> (5000 - lastFeedbackTime (new_FeedbackSystem True)
        < feedbackCooldown (new_FeedbackSystem True))
   \<and> feedbackCooldown (new_FeedbackSystem True) = 2000 \<and> (6999::int) - 5000 < 2000
   \<and> snd (FeedbackSystem_provideFeedback True 5000 success True (new_FeedbackSystem True))
       = [TeakSound, HapticVibrate [100, 50, 100], VisualConfirmation]
   \<and> FeedbackSystem_provideFeedback True 6999 error False
           (fst (FeedbackSystem_provideFeedback True 5000 success True (new_FeedbackSystem True)))
         = (fst (FeedbackSystem_provideFeedback True 5000 success True (new_FeedbackSystem True)),
            [])"
proof -
  have h1: "\<not> (5000 - lastFeedbackTime (new_FeedbackSystem True)
                 < feedbackCooldown (new_FeedbackSystem True))"
    by (simp add: new_FeedbackSystem_def)
  have h2: "feedbackCooldown (new_FeedbackSystem True) = 2000"
    by (simp add: new_FeedbackSystem_def)
  have h3: "(6999::int) - 5000 < 2000" by simp
  have h4: "snd (FeedbackSystem_provideFeedback True 5000 success True (new_FeedbackSystem True))
       = [TeakSound, HapticVibrate [100, 50, 100], VisualConfirmation]"
    by (simp add: FeedbackSystem_provideFeedback_def new_FeedbackSystem_def Let_def
          playTeakSound_def triggerHapticFeedback_def)
  show ?thesis
    using h1 h2 h3 h4
      feedback_cooldown_is_global [OF h1 h2 h3, of True error False True success True]
    by simp
qed

section \<open>Properties of the lighting adviser\<close>

lemma flashCalls_emit:
  "flashCalls (emit es s) = flashCalls s + length (filter (\<lambda>x. x = TurnFlashOn) es)"
  by (simp add: flashCalls_def emit_def)

text \<open>
  A callback that does not see the scanner as scanning returns at its first line; one that
  sees the flash as enabled makes no call.
\<close>

lemma tick_not_scanning:
  "\<not> seen_scanning c \<Longrightarrow> lightTick c v smp s = s"
  by (simp add: lightTick_def)

lemma monitor_not_scanning:
  "\<not> seen_scanning c \<Longrightarrow> monitorLight c v smps s = s"
  by (induction smps arbitrary: s) (simp_all add: tick_not_scanning)

lemma tick_seen_enabled:
  "seen_flashEnabled c \<Longrightarrow> flashCalls (lightTick c v smp s) = flashCalls s"
  by (simp add: lightTick_def Let_def flashCalls_def)

lemma monitor_seen_enabled:
  "seen_flashEnabled c \<Longrightarrow> flashCalls (monitorLight c v smps s) = flashCalls s"
  by (induction smps arbitrary: s) (simp_all add: tick_seen_enabled)

text \<open>
  The test of the callback reads the closure, not the state: a callback of a render that
  scans with the flash off calls \<^verbatim>\<open>turnFlashOn\<close> on every sample below 5, also
  when the state has the flash enabled.
\<close>

lemma tick_fires:
  assumes "isMounted s" and "hasVideo s" and "hasScanner s"
    and "seen_scanning c" and "\<not> seen_flashEnabled c" and "measured smp < 5"
  shows "flashCalls (lightTick c v smp s) = flashCalls s + 1"
    and "isMounted (lightTick c v smp s)" and "hasVideo (lightTick c v smp s)"
    and "hasScanner (lightTick c v smp s)"
    and "\<not> flashFails smp \<Longrightarrow> flashEnabled (lightTick c v smp s)"
  using assms
  by (simp_all add: lightTick_def Let_def enableFlash_def MIN_LIGHT_LEVEL_def
        flashCalls_def emit_def provideFeedback_def)

lemma monitor_fires_every_sample:
  assumes "isMounted s" and "hasVideo s" and "hasScanner s"
    and "seen_scanning c" and "\<not> seen_flashEnabled c"
    and "\<forall>smp \<in> set smps. measured smp < 5"
  shows "flashCalls (monitorLight c v smps s) = flashCalls s + length smps"
  using assms
proof (induction smps arbitrary: s)
  case Nil
  then show ?case by simp
next
  case (Cons smp smps)
  have m: "measured smp < 5" using Cons.prems(6) by simp
  note t = tick_fires [OF Cons.prems(1) Cons.prems(2) Cons.prems(3) Cons.prems(4)
      Cons.prems(5) m, of v]
  have "flashCalls (monitorLight c v smps (lightTick c v smp s))
        = flashCalls (lightTick c v smp s) + length smps"
    using Cons.prems t by (intro Cons.IH) simp_all
  then show ?case using t(1) by simp
qed

lemma scanning_render_timer_calls:
  "flashCalls (monitorLight example_timer True example_samples (example_scanner None)) = 3
   \<and> flashEnabled (lightTick example_timer True \<lparr>measured = 3, flashFails = False\<rparr>
        (example_scanner None))"
  by code_simp

text \<open>
  C9. The timer that runs is the one that the first render starts, and its callback sees
  \<^verbatim>\<open>scanning\<close> as false: over every sequence of samples, whatever the light, the
  device and the state, it leaves the state as it is. It makes no call of
  \<^verbatim>\<open>turnFlashOn\<close>, so none more than once for a change of the flash from off to
  on, and none on a sample taken while the flash is enabled.
\<close>

theorem flash_enabled_at_most_once:
  fixes s :: scanner
  shows "monitorLight first_render_timer v smps s = s
   \<and> flashCalls (monitorLight first_render_timer v smps s) = flashCalls s
   \<and> flashEnabled (monitorLight first_render_timer v smps s) = flashEnabled s
   \<and> lightTick first_render_timer v smp s = s"
  using monitor_not_scanning [of first_render_timer v smps s]
    tick_not_scanning [of first_render_timer v smp s]
  by (simp add: first_render_timer_def)

theorem flash_enabled_at_most_once_witness:
  "monitorLight first_render_timer True example_samples (example_scanner None)
     = example_scanner None
   \<and> flashCalls (monitorLight first_render_timer True example_samples (example_scanner None)) = 0
   \<and> \<not> flashEnabled
         (monitorLight first_render_timer True example_samples (example_scanner None))
   \<and> lightTick first_render_timer True \<lparr>measured = 3, flashFails = False\<rparr>
        (example_scanner None) = example_scanner None"
proof -
  have z: "flashCalls (example_scanner None) = 0" "\<not> flashEnabled (example_scanner None)"
    by (simp_all add: flashCalls_def example_scanner_def)
  show ?thesis
    using z flash_enabled_at_most_once [of True example_samples "example_scanner None"
        "\<lparr>measured = 3, flashFails = False\<rparr>"]
    by simp
qed

end
